theory Spec2Isabelle
  imports Main
begin

section \<open>The daemon package: data model\<close>

text \<open>
  The development embeds \<^verbatim>\<open>packages/daemon/src/daemon.ts\<close> (class \<^verbatim>\<open>Daemon\<close>) and the
  parts of \<^verbatim>\<open>llm.ts\<close> it calls. Record fields carry a short prefix per record, because
  several of the source's interfaces share field names; functions keep the names of the source.
\<close>

subsection \<open>JavaScript values and errors\<close>

text \<open>
  Tool arguments and tool results are untyped (\<^verbatim>\<open>any\<close>) in the source. The code only ever
  applies \<^verbatim>\<open>typeof\<close>, \<^verbatim>\<open>Array.isArray\<close>, property lookup and string conversion to them, so
  a number is kept as an integer and a function as the text that string conversion gives
  for it.
\<close>

datatype jsval =
    JUndefined
  | JNull
  | JBool bool
  | JNum int
  | JStr string
  | JArr "jsval list"
  | JObj "(string \<times> jsval) list"
  | JFun string

text \<open>A thrown \<^verbatim>\<open>Error\<close>: its \<^verbatim>\<open>name\<close> and its \<^verbatim>\<open>message\<close>.\<close>

datatype js_error = JsError string string

definition Error :: "string \<Rightarrow> js_error" where
  "Error msg = JsError ''Error'' msg"

text \<open>\<^verbatim>\<open>`${e}`\<close> on an error object (\<^verbatim>\<open>Error.prototype.toString\<close>).\<close>

fun error_toString :: "js_error \<Rightarrow> string" where
  "error_toString (JsError name msg) =
     (if name = [] then msg else if msg = [] then name else name @ '': '' @ msg)"

fun typeof :: "jsval \<Rightarrow> string" where
  "typeof JUndefined = ''undefined''"
| "typeof JNull = ''object''"
| "typeof (JBool b) = ''boolean''"
| "typeof (JNum n) = ''number''"
| "typeof (JStr s) = ''string''"
| "typeof (JArr xs) = ''object''"
| "typeof (JObj kvs) = ''object''"
| "typeof (JFun src) = ''function''"

fun isArray :: "jsval \<Rightarrow> bool" where
  "isArray (JArr xs) = True"
| "isArray v = False"

text \<open>
  What an object inherits from \<^verbatim>\<open>Object.prototype\<close>: \<^verbatim>\<open>__proto__\<close> reads the prototype
  itself (an object that is not an array; the code takes no more of it than its
  \<^verbatim>\<open>typeof\<close>), the other names are built-in functions.
\<close>

definition Object_prototype :: "string \<Rightarrow> jsval option" where
  "Object_prototype k =
     (if k = ''__proto__'' then Some (JObj [])
      else if k \<in> set [''constructor'', ''hasOwnProperty'', ''isPrototypeOf'',
                        ''propertyIsEnumerable'', ''toLocaleString'', ''toString'', ''valueOf'',
                        ''__defineGetter__'', ''__defineSetter__'', ''__lookupGetter__'',
                        ''__lookupSetter__'']
        then Some (JFun (''function '' @ (if k = ''constructor'' then ''Object'' else k)
                          @ ''() { [native code] }''))
      else None)"

text \<open>
  \<^verbatim>\<open>obj[key]\<close> on an object given by its own properties (an object literal, or an object
  read from JSON): the own property of that name, else the property inherited from
  \<^verbatim>\<open>Object.prototype\<close>, else \<^verbatim>\<open>undefined\<close>.
\<close>

definition js_get :: "(string \<times> jsval) list \<Rightarrow> string \<Rightarrow> jsval" where
  "js_get obj k =
     (case map_of obj k of
        Some v \<Rightarrow> v
      | None \<Rightarrow> (case Object_prototype k of Some v \<Rightarrow> v | None \<Rightarrow> JUndefined))"

text \<open>
  \<^verbatim>\<open>{...obj, key: v}\<close>: an existing key keeps its place and takes the new value, a new
  key goes last.
\<close>

fun js_set :: "string \<Rightarrow> jsval \<Rightarrow> (string \<times> jsval) list \<Rightarrow> (string \<times> jsval) list" where
  "js_set k v [] = [(k, v)]"
| "js_set k v ((k', v') # kvs) = (if k' = k then (k, v) # kvs else (k', v') # js_set k v kvs)"

definition endsWith :: "string \<Rightarrow> string \<Rightarrow> bool" where
  "endsWith s suf = (length suf \<le> length s \<and> drop (length s - length suf) s = suf)"

subsection \<open>The interfaces of types.ts\<close>

text \<open>
  Modelled from the spec: the interfaces \<^verbatim>\<open>Character\<close>, \<^verbatim>\<open>ModelProvider\<close>,
  \<^verbatim>\<open>ToolProvider\<close>, \<^verbatim>\<open>IHook\<close> and \<^verbatim>\<open>IMessageLifecycle\<close> of \<^verbatim>\<open>types.ts\<close>, which daemon.ts
  imports and which is not among the sources. The fields are those of the spec's data
  model, under the names by which daemon.ts, llm.ts and the tests read and write them. The
  role of a tool and the declared type of a parameter are strings, as the code compares
  them with string literals. \<^verbatim>\<open>Keypair\<close> is the web3.js keypair; \<^verbatim>\<open>daemonArgs\<close> of a hook
  has the argument type of \<^verbatim>\<open>sign\<close>.
\<close>

record Character =
  ch_name :: string
  ch_pubkey :: string
  ch_identityPrompt :: "string option"

record 'b Keypair =
  kp_publicKey :: 'b
  kp_secretKey :: 'b

record ModelProvider =
  mp_provider :: string
  mp_models :: "string list"
  mp_apiKey :: string
  mp_endpoint :: string

record Parameter =
  par_name :: string
  par_type :: string
  par_description :: string

record ToolProvider =
  tp_serverUrl :: string
  tp_toolName :: string
  tp_type :: string
  tp_description :: string
  tp_parameters :: "Parameter list"

record 'b Daemon =
  d_character :: Character
  d_keypair :: "'b Keypair option"
  d_models :: "ModelProvider list"
  d_tools :: "ToolProvider list"

record sign_args =
  sa_payload :: string

record hook_tool =
  ht_hookServerUrl :: string
  ht_toolName :: string
  ht_toolArgs :: "(string \<times> jsval) list"

record IHook =
  h_daemonTool :: string
  h_daemonArgs :: sign_args
  h_hookTool :: hook_tool
  h_hookOutput :: "string option"

record IMessageLifecycle =
  lc_daemonPubkey :: string
  lc_daemonName :: string
  lc_messageId :: string
  lc_message :: string
  lc_createdAt :: string
  lc_approval :: string
  lc_channelId :: "string option"
  lc_identityPrompt :: string
  lc_context :: "jsval list"
  lc_tools :: "string list"
  lc_generatedPrompt :: string
  lc_output :: string
  lc_hooks :: "IHook list"
  lc_hooksLog :: "jsval list"
  lc_actionsLog :: "jsval list"
  lc_postProcessLog :: "jsval list"

record llm_opts =
  llm_provider :: string
  llm_model :: string
  llm_endpoint :: "string option"
  llm_apiKey :: "string option"
  llm_systemPrompt :: "string option"

record stage_opts =
  so_context :: "bool option"
  so_actions :: "bool option"
  so_postProcess :: "bool option"

record message_opts =
  o_channelId :: "string option"
  o_stages :: "stage_opts option"
  o_toolArgs :: "(string \<times> jsval) list option"
  o_llm :: "llm_opts option"

section \<open>The model registry\<close>

text \<open>
  \<^verbatim>\<open>addModelProvider\<close>: \<^verbatim>\<open>find\<close> looks for an entry of the same provider name; when there
  is one, \<^verbatim>\<open>map\<close> puts the new provider in the place of every entry of that name,
  otherwise \<^verbatim>\<open>push\<close> appends it.
\<close>

definition addModelProvider :: "ModelProvider \<Rightarrow> 'b Daemon \<Rightarrow> 'b Daemon" where
  "addModelProvider p d =
     (case find (\<lambda>q. mp_provider q = mp_provider p) (d_models d) of
        Some existingProvider \<Rightarrow>
          d\<lparr>d_models := map (\<lambda>q. if mp_provider q = mp_provider p then p else q) (d_models d)\<rparr>
      | None \<Rightarrow> d\<lparr>d_models := d_models d @ [p]\<rparr>)"

definition addSingleToolFromProvider :: "ToolProvider \<Rightarrow> 'b Daemon \<Rightarrow> 'b Daemon" where
  "addSingleToolFromProvider t d = d\<lparr>d_tools := d_tools d @ [t]\<rparr>"

section \<open>The outside world\<close>

subsection \<open>Library functions\<close>

text \<open>
  The functions of \<^verbatim>\<open>JSON\<close>, \<^verbatim>\<open>Buffer\<close>, tweetnacl and web3.js that the daemon calls are
  parameters of the model; \<open>'b\<close> is the type of byte buffers, which the daemon only hands
  from one of them to the next. \<open>pf_type_error\<close> is the \<^verbatim>\<open>TypeError\<close> the engine raises
  when a property of \<^verbatim>\<open>undefined\<close> is read.
\<close>

record 'b platform =
  pf_JSON_stringify :: "(string \<times> string) list \<Rightarrow> string"
  pf_utf8 :: "string \<Rightarrow> 'b"
  pf_toString_base64 :: "'b \<Rightarrow> string"
  pf_from_base64 :: "string \<Rightarrow> 'b"
  pf_sign_detached :: "'b \<Rightarrow> 'b \<Rightarrow> 'b"
  pf_toBase58 :: "'b \<Rightarrow> string"
  pf_type_error :: js_error

subsection \<open>Effects: the trace of remote events, the lifecycle subject, ids and the clock\<close>

record llm_request =
  rq_provider :: string
  rq_model :: string
  rq_endpoint :: string
  rq_apiKey :: string
  rq_system :: string
  rq_prompt :: string

text \<open>
  What the daemon does to the network, in order. \<open>Connected name url\<close>: the MCP client
  called \<open>name\<close> has completed \<^verbatim>\<open>client.connect\<close> to \<open>url\<close> (a session is open);
  \<open>Invoke name session tool args\<close>: \<^verbatim>\<open>client.callTool\<close> was issued on that client, whose
  session is \<open>session\<close> (\<open>None\<close> when the client never connected); \<open>Closed name\<close>:
  \<^verbatim>\<open>client.close()\<close>; \<open>Generate\<close> and \<open>GenerateStream\<close>: a request to the model provider.
\<close>

datatype event =
    Connected string string
  | ConnectFailed string string
  | Invoke string "string option" string jsval
  | Closed string
  | Generate llm_request
  | GenerateStream llm_request "ToolProvider list"

text \<open>How the provider's text stream ends: it completes, it fails, or it never ends.\<close>

datatype stream_end = StreamComplete | StreamError js_error | StreamHang

text \<open>
  The answers of the outside world, each a function of the events so far: whether a
  handshake succeeds, what a remote tool returns or throws, what the model provider
  returns, and the values \<^verbatim>\<open>nanoid()\<close> and \<^verbatim>\<open>new Date().toISOString()\<close> give at their
  n-th call.
\<close>

record env =
  env_connect :: "event list \<Rightarrow> string \<Rightarrow> js_error option"
  env_callTool :: "event list \<Rightarrow> string option \<Rightarrow> string \<Rightarrow> jsval \<Rightarrow> js_error + jsval"
  env_completion :: "event list \<Rightarrow> llm_request \<Rightarrow> js_error + string option"
  env_textStream :: "event list \<Rightarrow> llm_request \<Rightarrow> ToolProvider list
                       \<Rightarrow> js_error + string list \<times> stream_end"
  env_nanoid :: "nat \<Rightarrow> string"
  env_now :: "nat \<Rightarrow> string"

text \<open>
  The mutable state: the events so far, the values published on the lifecycle
  \<^verbatim>\<open>BehaviorSubject\<close> by \<^verbatim>\<open>lifecycle.next\<close> (oldest first; \<open>None\<close> while no subject has
  been created), and how many ids and clock readings have been drawn.
\<close>

record state =
  st_trace :: "event list"
  st_subject :: "IMessageLifecycle list option"
  st_ids :: nat
  st_clock :: nat

type_synonym 'a action = "state \<Rightarrow> (js_error + 'a) \<times> state"

definition log :: "event \<Rightarrow> state \<Rightarrow> state" where
  "log e st = st\<lparr>st_trace := st_trace st @ [e]\<rparr>"

text \<open>Sequencing: a throw skips the rest.\<close>

definition bind :: "'a action \<Rightarrow> ('a \<Rightarrow> 'c action) \<Rightarrow> 'c action" where
  "bind m f st = (case m st of (Inl e, st') \<Rightarrow> (Inl e, st') | (Inr a, st') \<Rightarrow> f a st')"

definition return :: "'a \<Rightarrow> 'a action" where
  "return a st = (Inr a, st)"

definition throw :: "js_error \<Rightarrow> 'a action" where
  "throw e st = (Inl e, st)"

definition nanoid :: "env \<Rightarrow> string action" where
  "nanoid E st = (Inr (env_nanoid E (st_ids st)), st\<lparr>st_ids := Suc (st_ids st)\<rparr>)"

definition now_ISO :: "env \<Rightarrow> string action" where
  "now_ISO E st = (Inr (env_now E (st_clock st)), st\<lparr>st_clock := Suc (st_clock st)\<rparr>)"

subsection \<open>The MCP client\<close>

record client =
  cl_name :: string
  cl_transport :: "string option"

definition new_Client :: "string \<Rightarrow> client" where
  "new_Client name = \<lparr>cl_name = name, cl_transport = None\<rparr>"

definition client_connect :: "env \<Rightarrow> client \<Rightarrow> string \<Rightarrow> client action" where
  "client_connect E c url st =
     (case env_connect E (st_trace st) url of
        Some e \<Rightarrow> (Inl e, log (ConnectFailed (cl_name c) url) st)
      | None \<Rightarrow> (Inr (c\<lparr>cl_transport := Some url\<rparr>), log (Connected (cl_name c) url) st))"

definition client_callTool :: "env \<Rightarrow> client \<Rightarrow> string \<Rightarrow> jsval \<Rightarrow> jsval action" where
  "client_callTool E c name args st =
     (env_callTool E (st_trace st) (cl_transport c) name args,
      log (Invoke (cl_name c) (cl_transport c) name args) st)"

definition client_close :: "client \<Rightarrow> unit action" where
  "client_close c st = (Inr (), log (Closed (cl_name c)) st)"

section \<open>The remote tool client: callTool\<close>

text \<open>The argument check of one declared parameter, branch by branch as in the source.\<close>

definition check_parameter :: "Parameter \<Rightarrow> (string \<times> jsval) list \<Rightarrow> js_error option" where
  "check_parameter parameter args =
     (if par_type parameter = ''string'' then
        (if typeof (js_get args (par_name parameter)) \<noteq> ''string''
         then Some (Error (par_name parameter @ '' must be a string'')) else None)
      else if par_type parameter = ''number'' then
        (if typeof (js_get args (par_name parameter)) \<noteq> ''number''
         then Some (Error (par_name parameter @ '' must be a number'')) else None)
      else if par_type parameter = ''boolean'' then
        (if typeof (js_get args (par_name parameter)) \<noteq> ''boolean''
         then Some (Error (par_name parameter @ '' must be a boolean'')) else None)
      else if par_type parameter = ''array'' then
        (if \<not> isArray (js_get args (par_name parameter))
         then Some (Error (par_name parameter @ '' must be an array'')) else None)
      else if par_type parameter = ''object'' then
        (if typeof (js_get args (par_name parameter)) \<noteq> ''object''
         then Some (Error (par_name parameter @ '' must be an object'')) else None)
      else None)"

text \<open>The loop over \<^verbatim>\<open>tool.parameters\<close>: the first failing check throws.\<close>

fun check_args :: "Parameter list \<Rightarrow> (string \<times> jsval) list \<Rightarrow> js_error option" where
  "check_args [] args = None"
| "check_args (parameter # rest) args =
     (case check_parameter parameter args of
        Some e \<Rightarrow> Some e
      | None \<Rightarrow> check_args rest args)"

definition sseUrl_of :: "string \<Rightarrow> string" where
  "sseUrl_of url = (if endsWith url ''/sse'' then url else url @ ''/sse'')"

text \<open>
  \<^verbatim>\<open>callTool\<close>: create the client, connect, check the arguments, call the remote tool,
  close, return. There is no \<^verbatim>\<open>try\<close>: a throw leaves the function where it happens.
\<close>

definition callTool :: "env \<Rightarrow> ToolProvider \<Rightarrow> (string \<times> jsval) list \<Rightarrow> jsval action" where
  "callTool E tool args =
     bind (client_connect E (new_Client (tp_serverUrl tool)) (sseUrl_of (tp_serverUrl tool)))
       (\<lambda>client.
          case check_args (tp_parameters tool) args of
            Some e \<Rightarrow> throw e
          | None \<Rightarrow>
              bind (client_callTool E client (tp_toolName tool) (JObj args))
                (\<lambda>result. bind (client_close client) (\<lambda>u. return result)))"

section \<open>Signing\<close>

text \<open>\<^verbatim>\<open>sign\<close>: the payload is base64; the signature comes back as base64.\<close>

definition sign :: "'b platform \<Rightarrow> 'b Daemon \<Rightarrow> sign_args \<Rightarrow> js_error + string" where
  "sign P d args =
     (case d_keypair d of
        None \<Rightarrow> Inl (Error ''Keypair not found'')
      | Some keypair \<Rightarrow>
          Inr (pf_toString_base64 P
                 (pf_sign_detached P (pf_from_base64 P (sa_payload args)) (kp_secretKey keypair))))"

text \<open>
  \<^verbatim>\<open>generateApproval\<close>: the object literal is given to \<^verbatim>\<open>JSON.stringify\<close> as its list of
  keys and values, in the order of the source; \<^verbatim>\<open>channelId ?? ""\<close> is the case
  distinction on the optional argument.
\<close>

definition approval_envelope ::
  "string \<Rightarrow> string \<Rightarrow> string \<Rightarrow> string option \<Rightarrow> (string \<times> string) list" where
  "approval_envelope message createdAt messageId channelId =
     [(''message'', message),
      (''createdAt'', createdAt),
      (''messageId'', messageId),
      (''channelId'', case channelId of None \<Rightarrow> [] | Some c \<Rightarrow> c)]"

definition generateApproval ::
  "'b platform \<Rightarrow> 'b Daemon \<Rightarrow> string \<Rightarrow> string \<Rightarrow> string \<Rightarrow> string option \<Rightarrow> js_error + string" where
  "generateApproval P d message createdAt messageId channelId =
     (case d_keypair d of
        None \<Rightarrow> Inl (Error ''Keypair not found'')
      | Some keypair \<Rightarrow>
          sign P d \<lparr>sa_payload =
            pf_toString_base64 P
              (pf_utf8 P
                 (pf_JSON_stringify P (approval_envelope message createdAt messageId channelId)))\<rparr>)"

section \<open>The hook callback\<close>

text \<open>
  \<^verbatim>\<open>hook\<close>: the switch on \<^verbatim>\<open>daemonTool\<close> has the one case \<^verbatim>\<open>"sign"\<close>; then a client named
  after the hook server is created and \<^verbatim>\<open>callTool\<close> is issued on it. The source calls no
  \<^verbatim>\<open>connect\<close> here. The \<^verbatim>\<open>catch\<close> rethrows what it caught.
\<close>

definition hook_dispatch :: "'b platform \<Rightarrow> 'b Daemon \<Rightarrow> IHook \<Rightarrow> js_error + IHook" where
  "hook_dispatch P d hook =
     (if h_daemonTool hook = ''sign'' then
        (case sign P d (h_daemonArgs hook) of
           Inl e \<Rightarrow> Inl e
         | Inr s \<Rightarrow> Inr (hook\<lparr>h_hookOutput := Some s\<rparr>))
      else Inr hook)"

definition hook_arguments :: "IHook \<Rightarrow> (string \<times> jsval) list" where
  "hook_arguments hook =
     js_set ''daemonOutput''
       (case h_hookOutput hook of None \<Rightarrow> JUndefined | Some s \<Rightarrow> JStr s)
       (ht_toolArgs (h_hookTool hook))"

definition hook :: "'b platform \<Rightarrow> env \<Rightarrow> 'b Daemon \<Rightarrow> IHook \<Rightarrow> jsval action" where
  "hook P E d h =
     (case hook_dispatch P d h of
        Inl e \<Rightarrow> throw e
      | Inr h' \<Rightarrow>
          client_callTool E (new_Client (ht_hookServerUrl (h_hookTool h')))
            (ht_toolName (h_hookTool h')) (JObj (hook_arguments h')))"

section \<open>Strings of the prompt\<close>

text \<open>\<^verbatim>\<open>Array.prototype.join\<close> on strings.\<close>

fun join :: "string \<Rightarrow> string list \<Rightarrow> string" where
  "join sep [] = []"
| "join sep [x] = x"
| "join sep (x # y # ys) = x @ sep @ join sep (y # ys)"

text \<open>Decimal digits of an array index or an integer.\<close>

fun show_nat :: "nat \<Rightarrow> string" where
  "show_nat n =
     (if n < 10 then [char_of (48 + n)] else show_nat (n div 10) @ [char_of (48 + n mod 10)])"

declare show_nat.simps [simp del]

definition show_int :: "int \<Rightarrow> string" where
  "show_int i = (if i < 0 then ''-'' @ show_nat (nat (- i)) else show_nat (nat i))"

text \<open>
  String conversion of a value, as \<^verbatim>\<open>join\<close> applies it to the elements of an array:
  \<^verbatim>\<open>undefined\<close> and \<^verbatim>\<open>null\<close> elements give the empty string, a nested array is joined
  with commas, an object gives \<^verbatim>\<open>[object Object]\<close>.
\<close>

fun js_toString :: "jsval \<Rightarrow> string" where
  "js_toString JUndefined = ''undefined''"
| "js_toString JNull = ''null''"
| "js_toString (JBool b) = (if b then ''true'' else ''false'')"
| "js_toString (JNum n) = show_int n"
| "js_toString (JStr s) = s"
| "js_toString (JArr xs) =
     join '','' (map (\<lambda>x. if x = JUndefined \<or> x = JNull then [] else js_toString x) xs)"
| "js_toString (JObj kvs) = ''[object Object]''"
| "js_toString (JFun src) = src"

definition js_join :: "string \<Rightarrow> jsval list \<Rightarrow> string" where
  "js_join sep xs =
     join sep (map (\<lambda>x. if x = JUndefined \<or> x = JNull then [] else js_toString x) xs)"

text \<open>\<^verbatim>\<open>Object.keys\<close> of an array: its indices, as strings.\<close>

definition Object_keys :: "'a list \<Rightarrow> string list" where
  "Object_keys xs = map show_nat [0..<length xs]"

definition nl :: string where
  "nl = [CHR 0x0A]"

definition DEFAULT_IDENTITY_PROMPT :: "string \<Rightarrow> string" where
  "DEFAULT_IDENTITY_PROMPT name =
     nl @ ''You are '' @ name @ ''. Keep your responses concise and to the point.'' @ nl @ ''  ''"

text \<open>\<^verbatim>\<open>SYSTEM_PROMPT\<close> of llm.ts; the template literal begins and ends with a line break.\<close>

definition SYSTEM_PROMPT :: string where
  "SYSTEM_PROMPT = join nl
     [
      '''',
      ''You are an AI agent operating within a framework that provides you with:'',
      ''- An identity (who you are and your core traits)'',
      ''- Context (memories and relevant information)'',
      ''- Tools (capabilities you can use)'',
      '''',
      ''# Core Principles'',
      ''1. Maintain consistent personality and behavior aligned with your identity'',
      ''2. Use provided context to inform your responses'',
      ''3. Consider past interactions when making decisions'',
      ''4. Use available tools appropriately to accomplish tasks'',
      '''',
      ''# Input Structure'',
      ''Each interaction will provide:'',
      ''- Identity Prompt: Your specific role and personality'',
      ''- Message: The user's current request/message'',
      ''- Context: Relevant memories and information'',
      '''',
      ''# Response Protocol'',
      ''1. First, process your identity and maintain that persona'',
      ''2. Review provided context and incorporate relevant information'',
      ''3. Analyze the user's message'',
      ''4. Formulate a response that:'',
      ''   - Stays true to your defined identity'',
      ''   - Incorporates relevant context naturally'',
      ''   - Uses appropriate tools when needed'',
      ''   - Maintains conversation history coherence'',
      ''   - Keep your responses concise'',
      ''   '',
      ''It's *very* important that if you do not know something, then you don't make something up.'',
      '''',
      ''# Memory Usage Guidelines'',
      ''- Reference provided memories naturally, as a person would recall information'',
      ''- Don't explicitly mention that you're using RAG or accessing memories'',
      ''- Integrate past knowledge smoothly into conversations'',
      '''',
      ''# Tool Usage Guidelines'',
      ''- Use tools when they would genuinely help accomplish the task'',
      ''- Maintain in-character behavior while using tools'',
      ''- Only use tools that have been explicitly provided'',
      '''',
      ''Remember: You are not just processing queries - you are embodying a specific identity with consistent traits, memories, and capabilities.'',
      '''']"

text \<open>\<^verbatim>\<open>createPrompt\<close>: the template of llm.ts, line by line.\<close>

definition createPrompt ::
  "string \<Rightarrow> string \<Rightarrow> string \<Rightarrow> jsval list \<Rightarrow> string list \<Rightarrow> string" where
  "createPrompt daemonName identityPrompt message context tools = join nl
     [[],
      ''  # Name'',
      ''  '' @ daemonName,
      [],
      ''  # Identity Prompt'',
      ''  '' @ identityPrompt,
      [],
      ''  # User Message'',
      ''  '' @ message,
      ''  '',
      ''  # Context'',
      ''  '' @ js_join nl context,
      [],
      ''  # Tools'',
      ''  '' @ join nl tools,
      ''  '']"

section \<open>Generation strategies (llm.ts)\<close>

definition gen_error :: "js_error \<Rightarrow> js_error" where
  "gen_error e = Error (''Error generating text: '' @ error_toString e)"

definition llm_request_of ::
  "string \<Rightarrow> string \<Rightarrow> string \<Rightarrow> string \<Rightarrow> string \<Rightarrow> string \<Rightarrow> llm_request" where
  "llm_request_of provider model endpoint apiKey systemPrompt prompt =
     \<lparr>rq_provider = provider, rq_model = model, rq_endpoint = endpoint, rq_apiKey = apiKey,
      rq_system = (if systemPrompt = [] then SYSTEM_PROMPT else systemPrompt),
      rq_prompt = prompt\<rparr>"

text \<open>
  \<^verbatim>\<open>genText\<close>: one chat completion; the text of the first choice, or the empty string when
  its content is \<^verbatim>\<open>null\<close>. Whatever is thrown inside is rethrown as
  \<^verbatim>\<open>Error generating text: ...\<close>.
\<close>

definition genText ::
  "env \<Rightarrow> string \<Rightarrow> string \<Rightarrow> string \<Rightarrow> string \<Rightarrow> string \<Rightarrow> string \<Rightarrow> string action" where
  "genText E provider model endpoint apiKey systemPrompt prompt st =
     (if provider = ''openai'' \<or> provider = ''openrouter'' then
        (case env_completion E (st_trace st)
                (llm_request_of provider model endpoint apiKey systemPrompt prompt) of
           Inl e \<Rightarrow>
             (Inl (gen_error e),
              log (Generate (llm_request_of provider model endpoint apiKey systemPrompt prompt)) st)
         | Inr content \<Rightarrow>
             (Inr (case content of None \<Rightarrow> [] | Some text \<Rightarrow> text),
              log (Generate (llm_request_of provider model endpoint apiKey systemPrompt prompt)) st))
      else (Inl (gen_error (Error (''Unsupported provider: '' @ provider))), st))"

text \<open>
  The loop of \<^verbatim>\<open>streamHandler\<close> over the provider's text stream:
  \<^verbatim>\<open>output += chunk; observer.next(output)\<close>. The result is the list of the values given
  to \<^verbatim>\<open>observer.next\<close>, in order; the first argument is \<^verbatim>\<open>output\<close> before the loop.
\<close>

fun streamHandler :: "string \<Rightarrow> string list \<Rightarrow> string list" where
  "streamHandler output [] = []"
| "streamHandler output (chunk # rest) = (output @ chunk) # streamHandler (output @ chunk) rest"

text \<open>
  \<^verbatim>\<open>genTextWithTools\<close>: the request is made with the on-demand tools; the observable it
  returns is given as the list of the values it emits and the way it ends. The text
  chunks and the end of the stream are the provider's answer (\<open>env_textStream\<close>); the
  executions of on-demand tools that the provider SDK performs while it streams are part
  of that answer.
\<close>

definition genTextWithTools ::
  "env \<Rightarrow> string \<Rightarrow> string \<Rightarrow> string \<Rightarrow> string \<Rightarrow> string \<Rightarrow> string \<Rightarrow> ToolProvider list
     \<Rightarrow> (string list \<times> stream_end) action" where
  "genTextWithTools E providerName modelId endpoint apiKey systemPrompt prompt tools st =
     (if providerName = ''openai'' \<or> providerName = ''openrouter'' then
        (case env_textStream E (st_trace st)
                (llm_request_of providerName modelId endpoint apiKey systemPrompt prompt) tools of
           Inl e \<Rightarrow>
             (Inl (gen_error e),
              log (GenerateStream
                     (llm_request_of providerName modelId endpoint apiKey systemPrompt prompt) tools) st)
         | Inr (chunks, ending) \<Rightarrow>
             (Inr (streamHandler [] chunks, ending),
              log (GenerateStream
                     (llm_request_of providerName modelId endpoint apiKey systemPrompt prompt) tools) st))
      else (Inl (gen_error (Error (''Unsupported provider: '' @ providerName))), st))"

section \<open>The lifecycle orchestrator\<close>

subsection \<open>Options\<close>

text \<open>\<^verbatim>\<open>a ?? b\<close>\<close>

definition nullish :: "'a option \<Rightarrow> 'a \<Rightarrow> 'a" where
  "nullish a b = (case a of None \<Rightarrow> b | Some x \<Rightarrow> x)"

text \<open>\<^verbatim>\<open>opts?.llm\<close>, \<^verbatim>\<open>opts?.channelId\<close>, \<^verbatim>\<open>opts?.stages?.context\<close> and so on.\<close>

definition opts_llm :: "message_opts option \<Rightarrow> llm_opts option" where
  "opts_llm opts = (case opts of None \<Rightarrow> None | Some opt \<Rightarrow> o_llm opt)"

definition opts_channelId :: "message_opts option \<Rightarrow> string option" where
  "opts_channelId opts = (case opts of None \<Rightarrow> None | Some opt \<Rightarrow> o_channelId opt)"

definition opts_stages :: "message_opts option \<Rightarrow> stage_opts option" where
  "opts_stages opts = (case opts of None \<Rightarrow> None | Some opt \<Rightarrow> o_stages opt)"

definition stage_context :: "message_opts option \<Rightarrow> bool" where
  "stage_context opts =
     nullish (case opts_stages opts of None \<Rightarrow> None | Some s \<Rightarrow> so_context s) True"

definition stage_actions :: "message_opts option \<Rightarrow> bool" where
  "stage_actions opts =
     nullish (case opts_stages opts of None \<Rightarrow> None | Some s \<Rightarrow> so_actions s) True"

definition stage_postProcess :: "message_opts option \<Rightarrow> bool" where
  "stage_postProcess opts =
     nullish (case opts_stages opts of None \<Rightarrow> None | Some s \<Rightarrow> so_postProcess s) True"

definition opts_systemPrompt :: "message_opts option \<Rightarrow> string" where
  "opts_systemPrompt opts =
     nullish (case opts_llm opts of None \<Rightarrow> None | Some l \<Rightarrow> llm_systemPrompt l) []"

text \<open>\<^verbatim>\<open>opts?.toolArgs?.[`${tool.serverUrl}-${tool.toolName}`] ?? {}\<close>\<close>

definition opts_toolArgs :: "message_opts option \<Rightarrow> ToolProvider \<Rightarrow> jsval" where
  "opts_toolArgs opts tool =
     (case (case opts of None \<Rightarrow> None | Some opt \<Rightarrow> o_toolArgs opt) of
        None \<Rightarrow> JObj []
      | Some toolArgs \<Rightarrow>
          (case js_get toolArgs (tp_serverUrl tool @ ''-'' @ tp_toolName tool) of
             JUndefined \<Rightarrow> JObj []
           | JNull \<Rightarrow> JObj []
           | v \<Rightarrow> v))"

subsection \<open>Choosing the model\<close>

text \<open>
  The head of \<^verbatim>\<open>message\<close> and of \<^verbatim>\<open>messageWithTools\<close> (the same lines in both): the
  provider is \<^verbatim>\<open>opts?.llm?.provider ?? Object.keys(this.models)[0]\<close>; model, API key and
  endpoint come from the override or from the registry entry that \<^verbatim>\<open>find\<close> returns for
  that provider name. The result is (provider, model, apiKey, endpoint).
\<close>

definition find_provider :: "'b Daemon \<Rightarrow> string \<Rightarrow> ModelProvider option" where
  "find_provider d provider = find (\<lambda>p. mp_provider p = provider) (d_models d)"

definition first_key :: "'a list \<Rightarrow> string option" where
  "first_key xs = (case Object_keys xs of [] \<Rightarrow> None | k # ks \<Rightarrow> Some k)"

definition choose_provider :: "'b Daemon \<Rightarrow> message_opts option \<Rightarrow> string option" where
  "choose_provider d opts =
     (case opts_llm opts of Some l \<Rightarrow> Some (llm_provider l) | None \<Rightarrow> first_key (d_models d))"

definition choose_model :: "'b Daemon \<Rightarrow> message_opts option \<Rightarrow> string \<Rightarrow> string" where
  "choose_model d opts provider =
     (case opts_llm opts of
        Some l \<Rightarrow> llm_model l
      | None \<Rightarrow>
          (case find_provider d provider of
             None \<Rightarrow> []
           | Some p \<Rightarrow> (case mp_models p of [] \<Rightarrow> [] | m # ms \<Rightarrow> m)))"

definition choose_apiKey :: "'b Daemon \<Rightarrow> message_opts option \<Rightarrow> string \<Rightarrow> string" where
  "choose_apiKey d opts provider =
     nullish (case opts_llm opts of None \<Rightarrow> None | Some l \<Rightarrow> llm_apiKey l)
       (case find_provider d provider of None \<Rightarrow> [] | Some p \<Rightarrow> mp_apiKey p)"

definition choose_endpoint :: "'b Daemon \<Rightarrow> message_opts option \<Rightarrow> string \<Rightarrow> string" where
  "choose_endpoint d opts provider =
     nullish (case opts_llm opts of None \<Rightarrow> None | Some l \<Rightarrow> llm_endpoint l)
       (case find_provider d provider of None \<Rightarrow> [] | Some p \<Rightarrow> mp_endpoint p)"

definition choose_llm ::
  "'b Daemon \<Rightarrow> message_opts option \<Rightarrow> js_error + string \<times> string \<times> string \<times> string" where
  "choose_llm d opts =
     (if length (Object_keys (d_models d)) = 0 \<and> opts_llm opts = None
      then Inl (Error ''No model provider added'')
      else
        (case choose_provider d opts of
           None \<Rightarrow> Inl (Error ''No LLM provider chosen'')
         | Some provider \<Rightarrow>
             if provider = [] then Inl (Error ''No LLM provider chosen'')
             else if choose_model d opts provider = [] then Inl (Error ''No LLM model chosen'')
             else if choose_apiKey d opts provider = [] then Inl (Error ''No LLM API key chosen'')
             else if choose_endpoint d opts provider = []
               then Inl (Error ''No LLM endpoint chosen'')
             else Inr (provider, choose_model d opts provider,
                       choose_apiKey d opts provider, choose_endpoint d opts provider)))"

subsection \<open>The lifecycle subject\<close>

text \<open>
  \<^verbatim>\<open>new BehaviorSubject({})\<close> creates the subject; \<^verbatim>\<open>lifecycle.next(v)\<close> publishes \<open>v\<close>,
  which is \<^verbatim>\<open>lifecycle.value\<close> from then on: \<open>lifecycle_next\<close> returns it, and the
  next stage reads it from there.
\<close>

definition new_BehaviorSubject :: "unit action" where
  "new_BehaviorSubject st = (Inr (), st\<lparr>st_subject := Some []\<rparr>)"

definition lifecycle_next :: "IMessageLifecycle \<Rightarrow> IMessageLifecycle action" where
  "lifecycle_next v st =
     (Inr v, st\<lparr>st_subject := Some ((case st_subject st of None \<Rightarrow> [] | Some vs \<Rightarrow> vs) @ [v])\<rparr>)"

text \<open>The lifecycle value as the argument object a tool receives.\<close>

definition hook_js :: "IHook \<Rightarrow> jsval" where
  "hook_js h = JObj
     [(''daemonTool'', JStr (h_daemonTool h)),
      (''daemonArgs'', JObj [(''payload'', JStr (sa_payload (h_daemonArgs h)))]),
      (''hookTool'', JObj
         [(''hookServerUrl'', JStr (ht_hookServerUrl (h_hookTool h))),
          (''toolName'', JStr (ht_toolName (h_hookTool h))),
          (''toolArgs'', JObj (ht_toolArgs (h_hookTool h)))]),
      (''hookOutput'', case h_hookOutput h of None \<Rightarrow> JUndefined | Some s \<Rightarrow> JStr s)]"

definition lifecycle_js :: "IMessageLifecycle \<Rightarrow> jsval" where
  "lifecycle_js v = JObj
     [(''daemonPubkey'', JStr (lc_daemonPubkey v)),
      (''daemonName'', JStr (lc_daemonName v)),
      (''messageId'', JStr (lc_messageId v)),
      (''message'', JStr (lc_message v)),
      (''createdAt'', JStr (lc_createdAt v)),
      (''approval'', JStr (lc_approval v)),
      (''channelId'', case lc_channelId v of None \<Rightarrow> JUndefined | Some c \<Rightarrow> JStr c),
      (''identityPrompt'', JStr (lc_identityPrompt v)),
      (''context'', JArr (lc_context v)),
      (''tools'', JArr (map JStr (lc_tools v))),
      (''generatedPrompt'', JStr (lc_generatedPrompt v)),
      (''output'', JStr (lc_output v)),
      (''hooks'', JArr (map hook_js (lc_hooks v))),
      (''hooksLog'', JArr (lc_hooksLog v)),
      (''actionsLog'', JArr (lc_actionsLog v)),
      (''postProcessLog'', JArr (lc_postProcessLog v))]"

subsection \<open>The base stage\<close>

text \<open>
  The object literal of the base publish, its properties evaluated in the order of the
  source: the public key (a \<^verbatim>\<open>TypeError\<close> when there is no keypair), \<^verbatim>\<open>messageId: nanoid()\<close>,
  \<^verbatim>\<open>createdAt: new Date().toISOString()\<close>, then the approval, whose arguments are a
  further \<^verbatim>\<open>new Date().toISOString()\<close> and a further \<^verbatim>\<open>nanoid()\<close>.
\<close>

definition base_lifecycle ::
  "'b platform \<Rightarrow> env \<Rightarrow> 'b Daemon \<Rightarrow> string \<Rightarrow> message_opts option \<Rightarrow> IMessageLifecycle action" where
  "base_lifecycle P E d message opts =
     (case d_keypair d of
        None \<Rightarrow> throw (pf_type_error P)
      | Some keypair \<Rightarrow>
          bind (nanoid E) (\<lambda>messageId.
          bind (now_ISO E) (\<lambda>createdAt.
          bind (now_ISO E) (\<lambda>approvalCreatedAt.
          bind (nanoid E) (\<lambda>approvalMessageId.
            case generateApproval P d message approvalCreatedAt approvalMessageId
                   (opts_channelId opts) of
              Inl e \<Rightarrow> throw e
            | Inr approval \<Rightarrow>
                return
                  \<lparr>lc_daemonPubkey = pf_toBase58 P (kp_publicKey keypair),
                   lc_daemonName = ch_name (d_character d),
                   lc_messageId = messageId,
                   lc_message = message,
                   lc_createdAt = createdAt,
                   lc_approval = approval,
                   lc_channelId = opts_channelId opts,
                   lc_identityPrompt =
                     nullish (ch_identityPrompt (d_character d))
                       (DEFAULT_IDENTITY_PROMPT (ch_name (d_character d))),
                   lc_context = [],
                   lc_tools = [],
                   lc_generatedPrompt = [],
                   lc_output = [],
                   lc_hooks = [],
                   lc_hooksLog = [],
                   lc_actionsLog = [],
                   lc_postProcessLog = []\<rparr>)))))"

subsection \<open>Stages\<close>

text \<open>
  A stage starts one call per tool and waits for all of them with \<^verbatim>\<open>Promise.all\<close>. The
  model runs the calls one after the other in registration order; every call runs, the
  results are in registration order, and when calls throw the stage throws the error of
  the first of them in that order.
\<close>

fun all_of :: "('a \<Rightarrow> jsval action) \<Rightarrow> 'a list \<Rightarrow> jsval list action" where
  "all_of call [] st = (Inr [], st)"
| "all_of call (x # xs) st =
     (case call x st of
        (r, st1) \<Rightarrow>
          (case all_of call xs st1 of
             (rs, st2) \<Rightarrow>
               (case r of
                  Inl e \<Rightarrow> (Inl e, st2)
                | Inr v \<Rightarrow> (case rs of Inl e \<Rightarrow> (Inl e, st2) | Inr vs \<Rightarrow> (Inr (v # vs), st2)))))"

definition stage_args ::
  "message_opts option \<Rightarrow> IMessageLifecycle \<Rightarrow> ToolProvider \<Rightarrow> (string \<times> jsval) list" where
  "stage_args opts v tool = [(''lifecycle'', lifecycle_js v), (''args'', opts_toolArgs opts tool)]"

definition call_stage_tools ::
  "env \<Rightarrow> 'b Daemon \<Rightarrow> message_opts option \<Rightarrow> string \<Rightarrow> IMessageLifecycle \<Rightarrow> jsval list action" where
  "call_stage_tools E d opts role v =
     all_of (\<lambda>tool. callTool E tool (stage_args opts v tool))
       (filter (\<lambda>tool. tp_type tool = role) (d_tools d))"

definition context_stage ::
  "env \<Rightarrow> 'b Daemon \<Rightarrow> message_opts option \<Rightarrow> IMessageLifecycle \<Rightarrow> IMessageLifecycle action" where
  "context_stage E d opts v =
     (if stage_context opts then
        bind (call_stage_tools E d opts ''context'' v) (\<lambda>contextResults.
          lifecycle_next (v\<lparr>lc_context := contextResults\<rparr>))
      else return v)"

definition prompt_stage :: "IMessageLifecycle \<Rightarrow> IMessageLifecycle action" where
  "prompt_stage v =
     lifecycle_next
       (v\<lparr>lc_generatedPrompt :=
            createPrompt (lc_daemonName v) (lc_identityPrompt v) (lc_message v)
              (lc_context v) (lc_tools v)\<rparr>)"

text \<open>The action stage: the action tools, then the hooks of the current lifecycle value.\<close>

definition actions_stage ::
  "'b platform \<Rightarrow> env \<Rightarrow> 'b Daemon \<Rightarrow> message_opts option \<Rightarrow> IMessageLifecycle
     \<Rightarrow> IMessageLifecycle action" where
  "actions_stage P E d opts v =
     (if stage_actions opts then
        bind (call_stage_tools E d opts ''action'' v) (\<lambda>actionResults.
        bind (lifecycle_next (v\<lparr>lc_actionsLog := actionResults\<rparr>)) (\<lambda>v'.
        bind (all_of (hook P E d) (lc_hooks v')) (\<lambda>hookResults.
          lifecycle_next (v'\<lparr>lc_hooksLog := hookResults\<rparr>))))
      else return v)"

definition postProcess_stage ::
  "env \<Rightarrow> 'b Daemon \<Rightarrow> message_opts option \<Rightarrow> IMessageLifecycle \<Rightarrow> IMessageLifecycle action" where
  "postProcess_stage E d opts v =
     (if stage_postProcess opts then
        bind (call_stage_tools E d opts ''postProcess'' v) (\<lambda>postProcessResults.
          lifecycle_next (v\<lparr>lc_postProcessLog := postProcessResults\<rparr>))
      else return v)"

text \<open>The outer \<^verbatim>\<open>catch\<close> of both entry points: \<^verbatim>\<open>throw new Error(`Failed at step: ${e}`)\<close>.\<close>

definition failed_at_step :: "js_error \<Rightarrow> js_error" where
  "failed_at_step e = Error (''Failed at step: '' @ error_toString e)"

definition catch_all :: "'a action \<Rightarrow> 'a action" where
  "catch_all m st = (case m st of (Inl e, st') \<Rightarrow> (Inl (failed_at_step e), st') | (Inr a, st') \<Rightarrow> (Inr a, st'))"

text \<open>\<^verbatim>\<open>return lifecycle\<close>: the subject, given as the values published on it.\<close>

definition return_lifecycle :: "IMessageLifecycle list action" where
  "return_lifecycle st = (Inr (case st_subject st of None \<Rightarrow> [] | Some vs \<Rightarrow> vs), st)"

subsection \<open>message\<close>

text \<open>The stages of \<^verbatim>\<open>message\<close> that follow the base publish, from the published base value on.\<close>

definition blocking_stages ::
  "'b platform \<Rightarrow> env \<Rightarrow> 'b Daemon \<Rightarrow> message_opts option
     \<Rightarrow> string \<Rightarrow> string \<Rightarrow> string \<Rightarrow> string \<Rightarrow> IMessageLifecycle \<Rightarrow> IMessageLifecycle list action" where
  "blocking_stages P E d opts provider model apiKey endpoint v0 =
     bind (context_stage E d opts v0) (\<lambda>v1.
     bind (prompt_stage v1) (\<lambda>v2.
     bind (genText E provider model endpoint apiKey (opts_systemPrompt opts)
             (lc_generatedPrompt v2)) (\<lambda>output.
     bind (lifecycle_next (v2\<lparr>lc_output := output\<rparr>)) (\<lambda>v3.
     bind (actions_stage P E d opts v3) (\<lambda>v4.
     bind (postProcess_stage E d opts v4) (\<lambda>v5.
       return_lifecycle))))))"

definition message ::
  "'b platform \<Rightarrow> env \<Rightarrow> 'b Daemon \<Rightarrow> string \<Rightarrow> message_opts option
     \<Rightarrow> IMessageLifecycle list action" where
  "message P E d text opts =
     catch_all
       (case choose_llm d opts of
          Inl e \<Rightarrow> throw e
        | Inr (provider, model, apiKey, endpoint) \<Rightarrow>
            bind new_BehaviorSubject (\<lambda>u.
            bind (base_lifecycle P E d text opts) (\<lambda>base.
            bind (lifecycle_next base)
              (blocking_stages P E d opts provider model apiKey endpoint))))"

subsection \<open>messageWithTools\<close>

text \<open>The \<^verbatim>\<open>next\<close> handler of the subscription, once per emitted value.\<close>

fun publish_outputs :: "IMessageLifecycle \<Rightarrow> string list \<Rightarrow> IMessageLifecycle action" where
  "publish_outputs v [] = return v"
| "publish_outputs v (output # rest) =
     bind (lifecycle_next (v\<lparr>lc_output := output\<rparr>)) (\<lambda>v'. publish_outputs v' rest)"

text \<open>
  The \<^verbatim>\<open>complete\<close> handler is an \<^verbatim>\<open>async\<close> function nobody awaits: when a stage in it
  throws, the handler stops there and the error goes nowhere.
\<close>

definition unawaited :: "'a action \<Rightarrow> unit action" where
  "unawaited m st = (case m st of (r, st') \<Rightarrow> (Inr (), st'))"

text \<open>
  After the subscription the call waits for the completion promise or the 30-second
  timer, and returns the subject in every case: a failed stream and the timeout only
  print a warning. Time is not part of the model: the state returned holds every value
  the call publishes, whether before or after the moment it returns. \<open>streaming_stages\<close>
  are the stages of \<^verbatim>\<open>messageWithTools\<close> that follow the base publish.
\<close>

definition streaming_stages ::
  "'b platform \<Rightarrow> env \<Rightarrow> 'b Daemon \<Rightarrow> message_opts option
     \<Rightarrow> string \<Rightarrow> string \<Rightarrow> string \<Rightarrow> string \<Rightarrow> IMessageLifecycle \<Rightarrow> IMessageLifecycle list action" where
  "streaming_stages P E d opts provider model apiKey endpoint v0 =
     bind (context_stage E d opts v0) (\<lambda>v1.
     bind (prompt_stage v1) (\<lambda>v2.
     bind (genTextWithTools E provider model endpoint apiKey (opts_systemPrompt opts)
             (lc_generatedPrompt v2)
             (filter (\<lambda>t. tp_type t = ''ondemand'') (d_tools d))) (\<lambda>outputStream.
     bind (publish_outputs v2 (fst outputStream)) (\<lambda>v3.
     bind (case snd outputStream of
             StreamComplete \<Rightarrow>
               unawaited
                 (bind (actions_stage P E d opts v3) (\<lambda>v4. postProcess_stage E d opts v4))
           | StreamError e \<Rightarrow> return ()
           | StreamHang \<Rightarrow> return ()) (\<lambda>u.
       return_lifecycle)))))"

definition messageWithTools ::
  "'b platform \<Rightarrow> env \<Rightarrow> 'b Daemon \<Rightarrow> string \<Rightarrow> message_opts option
     \<Rightarrow> IMessageLifecycle list action" where
  "messageWithTools P E d text opts =
     catch_all
       (case choose_llm d opts of
          Inl e \<Rightarrow> throw e
        | Inr (provider, model, apiKey, endpoint) \<Rightarrow>
            bind new_BehaviorSubject (\<lambda>u.
            bind (base_lifecycle P E d text opts) (\<lambda>base.
            bind (lifecycle_next base)
              (streaming_stages P E d opts provider model apiKey endpoint))))"

section \<open>Sample inputs\<close>

text \<open>
  Concrete inputs on which the theorems below are instantiated. The sample platform stands
  in for the libraries: its signing function puts the secret key in front of the message,
  so that, as with real signatures, different messages get different signatures.
\<close>

definition sample_platform :: "string platform" where
  "sample_platform =
     \<lparr>pf_JSON_stringify = (\<lambda>kvs. concat (map (\<lambda>(k, v). k @ ''='' @ v @ '';'') kvs)),
      pf_utf8 = (\<lambda>s. s),
      pf_toString_base64 = (\<lambda>b. b),
      pf_from_base64 = (\<lambda>s. s),
      pf_sign_detached = (\<lambda>m k. k @ ''|'' @ m),
      pf_toBase58 = (\<lambda>b. b),
      pf_type_error = JsError ''TypeError'' ''undefined is not an object''\<rparr>"

definition sample_env :: env where
  "sample_env =
     \<lparr>env_connect = (\<lambda>events url. None),
      env_callTool = (\<lambda>events session name args. Inr (JStr ''done'')),
      env_completion = (\<lambda>events rq. Inr (Some ''Paris'')),
      env_textStream = (\<lambda>events rq tools. Inr ([''Hel'', ''lo '', ''Bob''], StreamComplete)),
      env_nanoid = (\<lambda>n. if n = 0 then ''V1StGXR8_Z5jdHi6B-myT'' else ''a3Fq9Zk2LmN0pQrS7tUvW''),
      env_now = (\<lambda>n. if n = 0 then ''2025-01-15T14:00:00.000Z'' else ''2025-01-15T14:00:00.001Z'')\<rparr>"

definition sample_state :: state where
  "sample_state = \<lparr>st_trace = [], st_subject = None, st_ids = 0, st_clock = 0\<rparr>"

definition sample_provider :: ModelProvider where
  "sample_provider =
     \<lparr>mp_provider = ''openai'', mp_models = [''gpt-4o-mini''], mp_apiKey = ''sk-test'',
      mp_endpoint = ''https://api.openai.com/v1''\<rparr>"

definition sample_provider2 :: ModelProvider where
  "sample_provider2 =
     \<lparr>mp_provider = ''openai'', mp_models = [''gpt-4-turbo''], mp_apiKey = ''new-api-key'',
      mp_endpoint = ''https://api.openai.com/v1/''\<rparr>"

definition sample_tool :: ToolProvider where
  "sample_tool =
     \<lparr>tp_serverUrl = ''http://localhost:3000'', tp_toolName = ''add'', tp_type = ''action'',
      tp_description = ''Add to a counter'',
      tp_parameters =
        [\<lparr>par_name = ''label'', par_type = ''string'', par_description = ''The counter''\<rparr>,
         \<lparr>par_name = ''count'', par_type = ''number'', par_description = ''How much''\<rparr>]\<rparr>"

definition sample_daemon :: "string Daemon" where
  "sample_daemon =
     \<lparr>d_character =
        \<lparr>ch_name = ''TestDaemon'', ch_pubkey = ''pk'',
         ch_identityPrompt = Some ''You are TestDaemon, a helpful assistant for testing.''\<rparr>,
      d_keypair = Some \<lparr>kp_publicKey = ''pk'', kp_secretKey = ''sk''\<rparr>,
      d_models = [sample_provider],
      d_tools = []\<rparr>"

definition empty_daemon :: "string Daemon" where
  "empty_daemon =
     \<lparr>d_character = \<lparr>ch_name = ''EmptyDaemon'', ch_pubkey = ''pk'', ch_identityPrompt = None\<rparr>,
      d_keypair = Some \<lparr>kp_publicKey = ''pk'', kp_secretKey = ''sk''\<rparr>,
      d_models = [],
      d_tools = []\<rparr>"

definition sample_opts :: message_opts where
  "sample_opts =
     \<lparr>o_channelId = None, o_stages = None, o_toolArgs = None,
      o_llm = Some \<lparr>llm_provider = ''openai'', llm_model = ''gpt-4o-mini'',
                    llm_endpoint = Some ''https://api.openai.com/v1'',
                    llm_apiKey = Some ''sk-test'', llm_systemPrompt = None\<rparr>\<rparr>"

definition sample_hook :: IHook where
  "sample_hook =
     \<lparr>h_daemonTool = ''sign'',
      h_daemonArgs = \<lparr>sa_payload = ''aGVsbG8=''\<rparr>,
      h_hookTool = \<lparr>ht_hookServerUrl = ''http://localhost:3000'', ht_toolName = ''submit'',
                    ht_toolArgs = [(''txId'', JNum 7)]\<rparr>,
      h_hookOutput = None\<rparr>"

text \<open>Argument maps for \<open>sample_tool\<close>: a valid one, one with a string for the number, one without the number.\<close>

definition sample_args :: "(string \<times> jsval) list" where
  "sample_args = [(''label'', JStr ''hits''), (''count'', JNum 5)]"

definition bad_args :: "(string \<times> jsval) list" where
  "bad_args = [(''label'', JStr ''hits''), (''count'', JStr ''five'')]"

definition short_args :: "(string \<times> jsval) list" where
  "short_args = [(''label'', JStr ''hits'')]"

text \<open>A daemon with one action tool that declares no parameters.\<close>

definition sample_action :: ToolProvider where
  "sample_action =
     \<lparr>tp_serverUrl = ''http://localhost:3000/sse'', tp_toolName = ''remember'', tp_type = ''action'',
      tp_description = ''Store the exchange'', tp_parameters = []\<rparr>"

definition acting_daemon :: "string Daemon" where
  "acting_daemon = sample_daemon\<lparr>d_tools := [sample_action]\<rparr>"

text \<open>
  The value that \<open>sample_daemon\<close> publishes at the base stage for the message
  \<^verbatim>\<open>Hello world\<close> in \<open>sample_env\<close>.
\<close>

definition sample_base :: IMessageLifecycle where
  "sample_base =
     \<lparr>lc_daemonPubkey = ''pk'',
      lc_daemonName = ''TestDaemon'',
      lc_messageId = ''V1StGXR8_Z5jdHi6B-myT'',
      lc_message = ''Hello world'',
      lc_createdAt = ''2025-01-15T14:00:00.000Z'',
      lc_approval =
        ''sk|message=Hello world;createdAt=2025-01-15T14:00:00.001Z;messageId=a3Fq9Zk2LmN0pQrS7tUvW;channelId=;'',
      lc_channelId = None,
      lc_identityPrompt = ''You are TestDaemon, a helpful assistant for testing.'',
      lc_context = [],
      lc_tools = [],
      lc_generatedPrompt = [],
      lc_output = [],
      lc_hooks = [],
      lc_hooksLog = [],
      lc_actionsLog = [],
      lc_postProcessLog = []\<rparr>"

text \<open>A tool with a parameter declared \<^verbatim>\<open>object\<close>, and an argument map that gives it an array.\<close>

definition object_tool :: ToolProvider where
  "object_tool =
     \<lparr>tp_serverUrl = ''http://localhost:3000'', tp_toolName = ''search'', tp_type = ''action'',
      tp_description = ''Search the memory'',
      tp_parameters =
        [\<lparr>par_name = ''filter'', par_type = ''object'', par_description = ''The filter''\<rparr>]\<rparr>"

definition array_args :: "(string \<times> jsval) list" where
  "array_args = [(''filter'', JArr [JStr ''recent''])]"

section \<open>Notions used in the statements\<close>

text \<open>
  The test that \<^verbatim>\<open>callTool\<close> applies to a value for a declared parameter type:
  \<^verbatim>\<open>typeof\<close> for \<^verbatim>\<open>string\<close>, \<^verbatim>\<open>number\<close>, \<^verbatim>\<open>boolean\<close> and \<^verbatim>\<open>object\<close>,
  \<^verbatim>\<open>Array.isArray\<close> for \<^verbatim>\<open>array\<close>; any other declared type is not tested.
\<close>

definition matches_type :: "string \<Rightarrow> jsval \<Rightarrow> bool" where
  "matches_type t v =
     (if t = ''string'' then typeof v = ''string''
      else if t = ''number'' then typeof v = ''number''
      else if t = ''boolean'' then typeof v = ''boolean''
      else if t = ''array'' then isArray v
      else if t = ''object'' then typeof v = ''object''
      else True)"

text \<open>A declared parameter whose argument does not pass that test.\<close>

definition offending :: "(string \<times> jsval) list \<Rightarrow> Parameter \<Rightarrow> bool" where
  "offending args p = (\<not> matches_type (par_type p) (js_get args (par_name p)))"

text \<open>The wording of the error for a declared type.\<close>

definition must_be :: "string \<Rightarrow> string" where
  "must_be t =
     (if t = ''string'' then ''a string''
      else if t = ''number'' then ''a number''
      else if t = ''boolean'' then ''a boolean''
      else if t = ''array'' then ''an array''
      else ''an object'')"

text \<open>
  The claim's words, ``a value that matches its declared primitive type'': a string for
  \<^verbatim>\<open>string\<close>, a number for \<^verbatim>\<open>number\<close>, a boolean for \<^verbatim>\<open>boolean\<close>, an array for
  \<^verbatim>\<open>array\<close>, an object (not an array, not \<^verbatim>\<open>null\<close>) for \<^verbatim>\<open>object\<close>. A declared type
  outside these five is matched by every value.
\<close>

definition matches_primitive :: "string \<Rightarrow> jsval \<Rightarrow> bool" where
  "matches_primitive t v =
     (if t = ''string'' then (case v of JStr s \<Rightarrow> True | _ \<Rightarrow> False)
      else if t = ''number'' then (case v of JNum n \<Rightarrow> True | _ \<Rightarrow> False)
      else if t = ''boolean'' then (case v of JBool b \<Rightarrow> True | _ \<Rightarrow> False)
      else if t = ''array'' then (case v of JArr xs \<Rightarrow> True | _ \<Rightarrow> False)
      else if t = ''object'' then (case v of JObj kvs \<Rightarrow> True | _ \<Rightarrow> False)
      else True)"

text \<open>A declared parameter whose argument does not match its declared primitive type.\<close>

definition mismatching :: "(string \<times> jsval) list \<Rightarrow> Parameter \<Rightarrow> bool" where
  "mismatching args p = (\<not> matches_primitive (par_type p) (js_get args (par_name p)))"

text \<open>A parameter declared \<^verbatim>\<open>object\<close> whose argument is an array or \<^verbatim>\<open>null\<close>.\<close>

definition array_or_null_for_object :: "(string \<times> jsval) list \<Rightarrow> Parameter \<Rightarrow> bool" where
  "array_or_null_for_object args p =
     (par_type p = ''object''
      \<and> (js_get args (par_name p) = JNull \<or> isArray (js_get args (par_name p))))"

text \<open>A remote tool invocation among the events.\<close>

fun is_invoke :: "event \<Rightarrow> bool" where
  "is_invoke (Invoke name session tool args) = True"
| "is_invoke e = False"

text \<open>The values published on the lifecycle subject so far.\<close>

definition published :: "state \<Rightarrow> IMessageLifecycle list" where
  "published st = (case st_subject st of None \<Rightarrow> [] | Some vs \<Rightarrow> vs)"

text \<open>A lifecycle value whose \<^verbatim>\<open>hooks\<close> and \<^verbatim>\<open>hooksLog\<close> are both the empty list.\<close>

definition no_hooks :: "IMessageLifecycle \<Rightarrow> bool" where
  "no_hooks v = (lc_hooks v = [] \<and> lc_hooksLog v = [])"

text \<open>
  The event a hook dispatch leaves in the trace: a tool invocation on a client that has no
  session. (\<^verbatim>\<open>callTool\<close> invokes on the session it has opened.)
\<close>

fun hook_call :: "event \<Rightarrow> bool" where
  "hook_call (Invoke name None tool args) = True"
| "hook_call e = False"

definition hook_free :: "state \<Rightarrow> bool" where
  "hook_free st = (\<forall>e\<in>set (st_trace st). \<not> hook_call e)"

text \<open>
  The invariant of the pipeline and the two judgements its proof uses. An action is
  \<open>silent\<close> when it leaves the subject alone and dispatches no hook; it \<open>preserves\<close> the
  invariant, with \<open>Q\<close> holding of its result, when it returns normally.
\<close>

definition hooks_never_set :: "bool \<Rightarrow> state \<Rightarrow> bool" where
  "hooks_never_set F st = ((\<forall>v\<in>set (published st). no_hooks v) \<and> (F \<longrightarrow> hook_free st))"

definition silent :: "'a action \<Rightarrow> bool" where
  "silent m =
     (\<forall>st. st_subject (snd (m st)) = st_subject st
           \<and> (hook_free st \<longrightarrow> hook_free (snd (m st))))"

definition preserves :: "bool \<Rightarrow> 'a action \<Rightarrow> ('a \<Rightarrow> bool) \<Rightarrow> bool" where
  "preserves F m Q =
     (\<forall>st. hooks_never_set F st \<longrightarrow>
        hooks_never_set F (snd (m st)) \<and> (\<forall>a. fst (m st) = Inr a \<longrightarrow> Q a))"

text \<open>An action that only appends to the values published so far.\<close>

definition append_only :: "'a action \<Rightarrow> bool" where
  "append_only m = (\<forall>st. \<exists>vs. published (snd (m st)) = published st @ vs)"

section \<open>Properties\<close>

subsection \<open>The model registry\<close>

text \<open>
  Claim C10. Registering a model provider whose name is already in the registry replaces
  the entry in place: the registry keeps its length, each entry of that name becomes the
  new provider and every other entry stays where it is. When the name is new, the provider
  is appended and the registry grows by one. Nothing else of the daemon changes.
\<close>

theorem addModelProvider_replace_or_append:
  "(if \<exists>q\<in>set (d_models d). mp_provider q = mp_provider p
    then d_models (addModelProvider p d) =
           map (\<lambda>q. if mp_provider q = mp_provider p then p else q) (d_models d)
         \<and> length (d_models (addModelProvider p d)) = length (d_models d)
         \<and> (\<forall>i<length (d_models d).
               d_models (addModelProvider p d) ! i =
                 (if mp_provider (d_models d ! i) = mp_provider p then p else d_models d ! i))
    else d_models (addModelProvider p d) = d_models d @ [p]
         \<and> length (d_models (addModelProvider p d)) = Suc (length (d_models d)))
   \<and> d_tools (addModelProvider p d) = d_tools d
   \<and> d_keypair (addModelProvider p d) = d_keypair d
   \<and> d_character (addModelProvider p d) = d_character d"
proof (cases "find (\<lambda>q. mp_provider q = mp_provider p) (d_models d)")
  case None
  then have "\<not> (\<exists>q\<in>set (d_models d). mp_provider q = mp_provider p)"
    by (simp add: find_None_iff)
  with None show ?thesis
    by (simp add: addModelProvider_def)
next
  case (Some existing)
  then have "\<exists>q\<in>set (d_models d). mp_provider q = mp_provider p"
    by (auto simp: find_Some_iff)
  with Some show ?thesis
    by (simp add: addModelProvider_def)
qed

text \<open>
  The registration of the test suite: a second \<^verbatim>\<open>openai\<close> provider takes the place of the
  first, and a provider added to an empty registry is its only entry.
\<close>

theorem addModelProvider_replace_or_append_witness:
  "d_models (addModelProvider sample_provider2 sample_daemon) = [sample_provider2]
   \<and> length (d_models (addModelProvider sample_provider2 sample_daemon)) = 1
   \<and> d_models (addModelProvider sample_provider empty_daemon) = [sample_provider]"
  using addModelProvider_replace_or_append [of sample_daemon sample_provider2]
    addModelProvider_replace_or_append [of empty_daemon sample_provider]
  by (simp add: sample_daemon_def empty_daemon_def sample_provider_def sample_provider2_def)

subsection \<open>The approval envelope\<close>

text \<open>
  Claim C7. For every message, creation time and message id, \<^verbatim>\<open>generateApproval\<close> without
  a channel id gives the same result as \<^verbatim>\<open>generateApproval\<close> with the empty string as
  channel id, and that result is, for a daemon with a keypair, the base64 signature under
  the daemon's secret key of the base64-encoded UTF-8 bytes of the JSON text of the
  envelope \<^verbatim>\<open>{message, createdAt, messageId, channelId: ""}\<close>; for a daemon without a
  keypair both calls throw \<^verbatim>\<open>Keypair not found\<close>.
\<close>

theorem generateApproval_channelId_omitted:
  "generateApproval P d text createdAt messageId None
     = generateApproval P d text createdAt messageId (Some [])
   \<and> generateApproval P d text createdAt messageId None
     = (case d_keypair d of
          None \<Rightarrow> Inl (Error ''Keypair not found'')
        | Some keypair \<Rightarrow>
            Inr (pf_toString_base64 P
                   (pf_sign_detached P
                      (pf_from_base64 P
                         (pf_toString_base64 P
                            (pf_utf8 P
                               (pf_JSON_stringify P
                                  [(''message'', text),
                                   (''createdAt'', createdAt),
                                   (''messageId'', messageId),
                                   (''channelId'', [])]))))
                      (kp_secretKey keypair))))"
  by (simp add: generateApproval_def sign_def approval_envelope_def split: option.split)

text \<open>
  On the sample platform both calls give the signature over the envelope whose
  \<^verbatim>\<open>channelId\<close> is empty.
\<close>

theorem generateApproval_channelId_omitted_witness:
  "generateApproval sample_platform sample_daemon ''Test message'' ''2025-01-15T14:00:00.000Z''
     ''V1StGXR8_Z5jdHi6B-myT'' None
     = Inr ''sk|message=Test message;createdAt=2025-01-15T14:00:00.000Z;messageId=V1StGXR8_Z5jdHi6B-myT;channelId=;''
   \<and> generateApproval sample_platform sample_daemon ''Test message'' ''2025-01-15T14:00:00.000Z''
     ''V1StGXR8_Z5jdHi6B-myT'' (Some [])
     = Inr ''sk|message=Test message;createdAt=2025-01-15T14:00:00.000Z;messageId=V1StGXR8_Z5jdHi6B-myT;channelId=;''"
proof -
  note both = generateApproval_channelId_omitted [of sample_platform sample_daemon
      "''Test message''" "''2025-01-15T14:00:00.000Z''" "''V1StGXR8_Z5jdHi6B-myT''"]
  from both [THEN conjunct2]
  have omitted: "generateApproval sample_platform sample_daemon ''Test message''
      ''2025-01-15T14:00:00.000Z'' ''V1StGXR8_Z5jdHi6B-myT'' None
     = Inr ''sk|message=Test message;createdAt=2025-01-15T14:00:00.000Z;messageId=V1StGXR8_Z5jdHi6B-myT;channelId=;''"
    by (simp add: sample_platform_def sample_daemon_def)
  from both [THEN conjunct1] omitted show ?thesis
    by simp
qed

subsection \<open>The streaming strategy\<close>

lemma streamHandler_length: "length (streamHandler out chunks) = length chunks"
  by (induction chunks arbitrary: out) simp_all

lemma streamHandler_nth:
  "i < length chunks \<Longrightarrow> streamHandler out chunks ! i = out @ concat (take (Suc i) chunks)"
proof (induction chunks arbitrary: out i)
  case Nil
  then show ?case by simp
next
  case (Cons c cs)
  show ?case
  proof (cases i)
    case 0
    then show ?thesis by simp
  next
    case (Suc j)
    with Cons.prems have "j < length cs" by simp
    from Cons.IH [OF this, of "out @ c"] Suc show ?thesis by simp
  qed
qed

lemma streamHandler_step:
  "Suc i < length chunks \<Longrightarrow>
     streamHandler out chunks ! Suc i = streamHandler out chunks ! i @ chunks ! Suc i"
  by (simp add: streamHandler_nth take_Suc_conv_app_nth [of "Suc i"])

text \<open>
  Claim C9. When the provider's stream delivers the text chunks \<open>chunks\<close>, the observable
  returned by \<^verbatim>\<open>genTextWithTools\<close> emits one value per chunk; the i-th value is the
  concatenation of the first i chunks, and each value is the one before it followed by the
  next chunk.
\<close>

theorem genTextWithTools_running_totals:
  assumes "providerName = ''openai'' \<or> providerName = ''openrouter''"
    and "env_textStream E (st_trace st)
           (llm_request_of providerName modelId endpoint apiKey systemPrompt prompt) tools
         = Inr (chunks, ending)"
  shows "\<exists>emitted st'.
           genTextWithTools E providerName modelId endpoint apiKey systemPrompt prompt tools st
             = (Inr (emitted, ending), st')
           \<and> length emitted = length chunks
           \<and> (\<forall>i<length chunks. emitted ! i = concat (take (Suc i) chunks))
           \<and> (\<forall>i. Suc i < length chunks \<longrightarrow> emitted ! Suc i = emitted ! i @ chunks ! Suc i)"
proof -
  let ?emitted = "streamHandler [] chunks"
  have run: "\<exists>st'. genTextWithTools E providerName modelId endpoint apiKey systemPrompt prompt tools st
               = (Inr (?emitted, ending), st')"
    using assms by (auto simp add: genTextWithTools_def)
  have len: "length ?emitted = length chunks"
    by (rule streamHandler_length)
  have total: "\<forall>i<length chunks. ?emitted ! i = concat (take (Suc i) chunks)"
    by (simp add: streamHandler_nth)
  have step: "\<forall>i. Suc i < length chunks \<longrightarrow> ?emitted ! Suc i = ?emitted ! i @ chunks ! Suc i"
    using streamHandler_step by blast
  from run len total step show ?thesis by blast
qed

text \<open>The chunks \<^verbatim>\<open>Hel\<close>, \<^verbatim>\<open>lo \<close>, \<^verbatim>\<open>Bob\<close> are emitted as \<^verbatim>\<open>Hel\<close>, \<^verbatim>\<open>Hello \<close>, \<^verbatim>\<open>Hello Bob\<close>.\<close>

theorem genTextWithTools_running_totals_witness:
  "\<exists>st'. genTextWithTools sample_env ''openai'' ''gpt-4o-mini'' ''https://api.openai.com/v1''
            ''sk-test'' [] ''Say hello'' [] sample_state
          = (Inr ([''Hel'', ''Hello '', ''Hello Bob''], StreamComplete), st')"
  using genTextWithTools_running_totals [of "''openai''" sample_env sample_state "''gpt-4o-mini''"
      "''https://api.openai.com/v1''" "''sk-test''" "[]" "''Say hello''" "[]"
      "[''Hel'', ''lo '', ''Bob'']" StreamComplete]
  by (simp add: sample_env_def genTextWithTools_def)

subsection \<open>Configuration\<close>

text \<open>
  Claim C8. With no registered model provider and no \<^verbatim>\<open>llm\<close> override, \<^verbatim>\<open>message\<close> (and
  \<^verbatim>\<open>messageWithTools\<close>) fails with the error \<^verbatim>\<open>No model provider added\<close>, wrapped by the
  outer handler, and leaves the state as it was: no lifecycle subject has been created,
  nothing has been published, no id or clock reading has been drawn and there has been no
  remote event.
\<close>

theorem message_without_provider_fails_first:
  assumes "d_models d = []" and "opts_llm opts = None"
  shows "message P E d text opts st
           = (Inl (Error ''Failed at step: Error: No model provider added''), st)
       \<and> messageWithTools P E d text opts st
           = (Inl (Error ''Failed at step: Error: No model provider added''), st)"
  using assms
  by (simp add: message_def messageWithTools_def choose_llm_def Object_keys_def catch_all_def
      throw_def failed_at_step_def Error_def)

text \<open>The test \<^verbatim>\<open>should throw error if no model provider is added\<close>.\<close>

theorem message_without_provider_fails_first_witness:
  "message sample_platform sample_env empty_daemon ''Hello'' None sample_state
     = (Inl (JsError ''Error'' ''Failed at step: Error: No model provider added''), sample_state)"
  using message_without_provider_fails_first [of empty_daemon None sample_platform sample_env
      "''Hello''" sample_state]
  by (simp add: empty_daemon_def opts_llm_def Error_def)

subsection \<open>The remote tool client\<close>

lemma check_parameter_matches:
  "check_parameter p args =
     (if offending args p then Some (Error (par_name p @ '' must be '' @ must_be (par_type p)))
      else None)"
  by (simp add: check_parameter_def offending_def matches_type_def must_be_def)

lemma check_args_first_offender:
  "check_args ps args =
     (case find (offending args) ps of
        None \<Rightarrow> None
      | Some p \<Rightarrow> Some (Error (par_name p @ '' must be '' @ must_be (par_type p))))"
  by (induction ps) (simp_all add: check_parameter_matches)

text \<open>The four ways through \<^verbatim>\<open>callTool\<close>.\<close>

lemma callTool_connect_failed:
  "env_connect E (st_trace st) (sseUrl_of (tp_serverUrl tool)) = Some e \<Longrightarrow>
     callTool E tool args st =
       (Inl e, log (ConnectFailed (tp_serverUrl tool) (sseUrl_of (tp_serverUrl tool))) st)"
  by (simp add: callTool_def bind_def client_connect_def new_Client_def)

lemma callTool_invalid:
  "env_connect E (st_trace st) (sseUrl_of (tp_serverUrl tool)) = None \<Longrightarrow>
   check_args (tp_parameters tool) args = Some e \<Longrightarrow>
     callTool E tool args st =
       (Inl e, log (Connected (tp_serverUrl tool) (sseUrl_of (tp_serverUrl tool))) st)"
  by (simp add: callTool_def bind_def client_connect_def new_Client_def throw_def)

lemma callTool_remote_throws:
  "env_connect E (st_trace st) (sseUrl_of (tp_serverUrl tool)) = None \<Longrightarrow>
   check_args (tp_parameters tool) args = None \<Longrightarrow>
   env_callTool E (st_trace st @ [Connected (tp_serverUrl tool) (sseUrl_of (tp_serverUrl tool))])
     (Some (sseUrl_of (tp_serverUrl tool))) (tp_toolName tool) (JObj args) = Inl e \<Longrightarrow>
     callTool E tool args st =
       (Inl e,
        log (Invoke (tp_serverUrl tool) (Some (sseUrl_of (tp_serverUrl tool))) (tp_toolName tool)
               (JObj args))
          (log (Connected (tp_serverUrl tool) (sseUrl_of (tp_serverUrl tool))) st))"
  by (simp add: callTool_def bind_def client_connect_def new_Client_def client_callTool_def log_def)

lemma callTool_returns:
  "env_connect E (st_trace st) (sseUrl_of (tp_serverUrl tool)) = None \<Longrightarrow>
   check_args (tp_parameters tool) args = None \<Longrightarrow>
   env_callTool E (st_trace st @ [Connected (tp_serverUrl tool) (sseUrl_of (tp_serverUrl tool))])
     (Some (sseUrl_of (tp_serverUrl tool))) (tp_toolName tool) (JObj args) = Inr v \<Longrightarrow>
     callTool E tool args st =
       (Inr v,
        log (Closed (tp_serverUrl tool))
          (log (Invoke (tp_serverUrl tool) (Some (sseUrl_of (tp_serverUrl tool))) (tp_toolName tool)
                  (JObj args))
             (log (Connected (tp_serverUrl tool) (sseUrl_of (tp_serverUrl tool))) st)))"
  by (simp add: callTool_def bind_def client_connect_def new_Client_def client_callTool_def
      client_close_def return_def log_def)

lemma sample_sseUrl: "sseUrl_of ''http://localhost:3000'' = ''http://localhost:3000/sse''"
  by (simp add: sseUrl_of_def endsWith_def)

text \<open>The test of the code and the claim's notion of a match.\<close>

lemma matches_primitive_passes: "matches_primitive t v \<Longrightarrow> matches_type t v"
  by (cases v) (auto simp add: matches_primitive_def matches_type_def split: if_splits)

lemma mismatch_detected:
  "\<not> matches_primitive t v \<Longrightarrow> \<not> (t = ''object'' \<and> (v = JNull \<or> isArray v)) \<Longrightarrow>
     \<not> matches_type t v"
  by (cases v) (auto simp add: matches_primitive_def matches_type_def split: if_splits)

lemma first_mismatching_is_first_offending:
  assumes "find (mismatching args) ps = Some p" and "\<not> array_or_null_for_object args p"
  shows "find (offending args) ps = Some p"
  using assms
proof (induction ps)
  case Nil
  then show ?case by simp
next
  case (Cons q qs)
  show ?case
  proof (cases "mismatching args q")
    case True
    with Cons.prems(1) have same: "q = p" by simp
    from True Cons.prems(2) same have "offending args q"
      by (auto simp add: mismatching_def offending_def array_or_null_for_object_def
          dest: mismatch_detected)
    with same show ?thesis by simp
  next
    case False
    then have "\<not> offending args q"
      by (simp add: mismatching_def offending_def matches_primitive_passes)
    moreover from False Cons.prems(1) have "find (mismatching args) qs = Some p" by simp
    ultimately show ?thesis
      using Cons.IH Cons.prems(2) by simp
  qed
qed

text \<open>
  Claim C3, as stated, fails in two ways. On the sample tool with a string for the number
  parameter, \<^verbatim>\<open>callTool\<close> fails with the error naming \<^verbatim>\<open>count\<close>, but the session to the
  tool server has been opened by then: the code connects before it checks the arguments.
  And on a tool with a parameter declared \<^verbatim>\<open>object\<close> that is given an array, the check
  passes (\<^verbatim>\<open>typeof\<close> of an array is \<^verbatim>\<open>object\<close>): no error is raised and the remote tool is
  invoked.
\<close>

theorem callTool_opens_session_before_validation:
  "fst (callTool sample_env sample_tool bad_args sample_state)
     = Inl (JsError ''Error'' ''count must be a number'')
   \<and> st_trace (snd (callTool sample_env sample_tool bad_args sample_state))
     = [Connected ''http://localhost:3000'' ''http://localhost:3000/sse'']
   \<and> mismatching array_args
       \<lparr>par_name = ''filter'', par_type = ''object'', par_description = ''The filter''\<rparr>
   \<and> fst (callTool sample_env object_tool array_args sample_state) = Inr (JStr ''done'')
   \<and> Invoke ''http://localhost:3000'' (Some ''http://localhost:3000/sse'') ''search''
       (JObj array_args)
       \<in> set (st_trace (snd (callTool sample_env object_tool array_args sample_state)))"
proof -
  have reachable: "env_connect sample_env (st_trace sample_state)
      (sseUrl_of (tp_serverUrl sample_tool)) = None"
    and reachable': "env_connect sample_env (st_trace sample_state)
      (sseUrl_of (tp_serverUrl object_tool)) = None"
    by (simp_all add: sample_env_def)
  have "check_args (tp_parameters sample_tool) bad_args
      = Some (JsError ''Error'' ''count must be a number'')"
    by (simp add: sample_tool_def bad_args_def check_parameter_def js_get_def Error_def)
  with reachable have first:
    "fst (callTool sample_env sample_tool bad_args sample_state)
       = Inl (JsError ''Error'' ''count must be a number'')"
    "st_trace (snd (callTool sample_env sample_tool bad_args sample_state))
       = [Connected ''http://localhost:3000'' ''http://localhost:3000/sse'']"
    by (simp_all add: callTool_invalid log_def sample_state_def sample_tool_def sample_sseUrl)
  have wrong: "mismatching array_args
       \<lparr>par_name = ''filter'', par_type = ''object'', par_description = ''The filter''\<rparr>"
    by (simp add: mismatching_def matches_primitive_def array_args_def js_get_def)
  have passes: "check_args (tp_parameters object_tool) array_args = None"
    by (simp add: object_tool_def array_args_def check_parameter_def js_get_def)
  have answer: "env_callTool sample_env
      (st_trace sample_state
         @ [Connected (tp_serverUrl object_tool) (sseUrl_of (tp_serverUrl object_tool))])
      (Some (sseUrl_of (tp_serverUrl object_tool))) (tp_toolName object_tool) (JObj array_args)
    = Inr (JStr ''done'')"
    by (simp add: sample_env_def)
  from callTool_returns [OF reachable' passes answer]
  have second:
    "fst (callTool sample_env object_tool array_args sample_state) = Inr (JStr ''done'')"
    "Invoke ''http://localhost:3000'' (Some ''http://localhost:3000/sse'') ''search''
       (JObj array_args)
       \<in> set (st_trace (snd (callTool sample_env object_tool array_args sample_state)))"
    by (simp_all add: log_def object_tool_def sample_sseUrl)
  from first wrong second show ?thesis by simp
qed

text \<open>
  Claim C3, amended. Take a tool and an argument map in which some declared parameter's
  value does not match its declared primitive type, and let the first such parameter not be
  one declared \<^verbatim>\<open>object\<close> that is given an array or \<^verbatim>\<open>null\<close>. When the session to the tool
  server can be opened, \<^verbatim>\<open>callTool\<close> fails with the error that names this first offending
  parameter; the session has been opened by then, and no remote tool invocation is made.
\<close>

theorem callTool_validation_error_after_connect:
  assumes "env_connect E (st_trace st) (sseUrl_of (tp_serverUrl tool)) = None"
    and "find (mismatching args) (tp_parameters tool) = Some p"
    and "\<not> array_or_null_for_object args p"
  shows "fst (callTool E tool args st)
           = Inl (Error (par_name p @ '' must be '' @ must_be (par_type p)))
       \<and> (\<exists>evs. st_trace (snd (callTool E tool args st)) = st_trace st @ evs
              \<and> Connected (tp_serverUrl tool) (sseUrl_of (tp_serverUrl tool)) \<in> set evs
              \<and> (\<forall>e\<in>set evs. \<not> is_invoke e))"
proof -
  from assms(2,3) have "find (offending args) (tp_parameters tool) = Some p"
    by (rule first_mismatching_is_first_offending)
  then have "check_args (tp_parameters tool) args
      = Some (Error (par_name p @ '' must be '' @ must_be (par_type p)))"
    by (simp add: check_args_first_offender)
  with assms(1) have "callTool E tool args st =
      (Inl (Error (par_name p @ '' must be '' @ must_be (par_type p))),
       log (Connected (tp_serverUrl tool) (sseUrl_of (tp_serverUrl tool))) st)"
    by (rule callTool_invalid)
  then show ?thesis
    by (simp add: log_def)
qed

text \<open>The first offending parameter of the sample call is \<^verbatim>\<open>count\<close>.\<close>

theorem callTool_validation_error_after_connect_witness:
  "find (mismatching bad_args) (tp_parameters sample_tool)
     = Some \<lparr>par_name = ''count'', par_type = ''number'', par_description = ''How much''\<rparr>
   \<and> fst (callTool sample_env sample_tool bad_args sample_state)
       = Inl (JsError ''Error'' ''count must be a number'')
   \<and> filter is_invoke (st_trace (snd (callTool sample_env sample_tool bad_args sample_state)))
       = []"
proof -
  let ?count = "\<lparr>par_name = ''count'', par_type = ''number'', par_description = ''How much''\<rparr>"
  have offender: "find (mismatching bad_args) (tp_parameters sample_tool) = Some ?count"
    by (simp add: sample_tool_def bad_args_def mismatching_def matches_primitive_def js_get_def)
  have detected: "\<not> array_or_null_for_object bad_args ?count"
    by (simp add: array_or_null_for_object_def)
  have reachable: "env_connect sample_env (st_trace sample_state)
      (sseUrl_of (tp_serverUrl sample_tool)) = None"
    by (simp add: sample_env_def)
  from callTool_validation_error_after_connect [OF reachable offender detected]
  have "fst (callTool sample_env sample_tool bad_args sample_state)
       = Inl (JsError ''Error'' ''count must be a number'')"
    and "filter is_invoke (st_trace (snd (callTool sample_env sample_tool bad_args sample_state)))
       = []"
    by (auto simp add: must_be_def Error_def sample_state_def filter_empty_conv)
  with offender show ?thesis by simp
qed

text \<open>
  Claim C4 does not hold of the code: \<^verbatim>\<open>client.close()\<close> stands behind the awaited remote
  call and \<^verbatim>\<open>callTool\<close> has no \<^verbatim>\<open>finally\<close>, so every throw skips it. A call of
  \<^verbatim>\<open>callTool\<close> only adds events; when it returns a result the events are: session opened,
  remote tool invoked on that session, session closed; when it throws, the events contain
  no closing of the session, also when the session had been opened.
\<close>

theorem callTool_closes_only_on_return:
  "\<exists>evs. st_trace (snd (callTool E tool args st)) = st_trace st @ evs
     \<and> (case fst (callTool E tool args st) of
          Inr v \<Rightarrow>
            evs = [Connected (tp_serverUrl tool) (sseUrl_of (tp_serverUrl tool)),
                   Invoke (tp_serverUrl tool) (Some (sseUrl_of (tp_serverUrl tool)))
                     (tp_toolName tool) (JObj args),
                   Closed (tp_serverUrl tool)]
        | Inl e \<Rightarrow>
            Closed (tp_serverUrl tool) \<notin> set evs
            \<and> (env_connect E (st_trace st) (sseUrl_of (tp_serverUrl tool)) = None
                 \<longrightarrow> Connected (tp_serverUrl tool) (sseUrl_of (tp_serverUrl tool)) \<in> set evs))"
proof (cases "env_connect E (st_trace st) (sseUrl_of (tp_serverUrl tool))")
  case (Some e)
  then show ?thesis
    by (simp add: callTool_connect_failed log_def)
next
  case None
  note connected = this
  show ?thesis
  proof (cases "check_args (tp_parameters tool) args")
    case (Some e)
    with connected show ?thesis
      by (simp add: callTool_invalid log_def)
  next
    case None
    note valid = this
    show ?thesis
    proof (cases "env_callTool E
        (st_trace st @ [Connected (tp_serverUrl tool) (sseUrl_of (tp_serverUrl tool))])
        (Some (sseUrl_of (tp_serverUrl tool))) (tp_toolName tool) (JObj args)")
      case (Inl e)
      with connected valid show ?thesis
        by (simp add: callTool_remote_throws log_def)
    next
      case (Inr v)
      with connected valid show ?thesis
        by (simp add: callTool_returns log_def)
    qed
  qed
qed

text \<open>
  The sample tool without its number argument: the validation error is thrown after the
  session was opened, and the session is not closed.
\<close>

theorem callTool_closes_only_on_return_witness:
  "fst (callTool sample_env sample_tool short_args sample_state)
     = Inl (JsError ''Error'' ''count must be a number'')
   \<and> Connected ''http://localhost:3000'' ''http://localhost:3000/sse''
       \<in> set (st_trace (snd (callTool sample_env sample_tool short_args sample_state)))
   \<and> Closed ''http://localhost:3000''
       \<notin> set (st_trace (snd (callTool sample_env sample_tool short_args sample_state)))"
proof -
  have reachable: "env_connect sample_env (st_trace sample_state)
      (sseUrl_of (tp_serverUrl sample_tool)) = None"
    by (simp add: sample_env_def)
  have invalid: "check_args (tp_parameters sample_tool) short_args
      = Some (JsError ''Error'' ''count must be a number'')"
    by (simp add: sample_tool_def short_args_def check_parameter_def js_get_def
        Object_prototype_def Error_def)
  from callTool_invalid [OF reachable invalid]
  have thrown: "fst (callTool sample_env sample_tool short_args sample_state)
     = Inl (JsError ''Error'' ''count must be a number'')"
    by simp
  from callTool_closes_only_on_return [of sample_env sample_tool short_args sample_state]
    thrown reachable
  have "Connected ''http://localhost:3000'' ''http://localhost:3000/sse''
       \<in> set (st_trace (snd (callTool sample_env sample_tool short_args sample_state)))"
    and "Closed ''http://localhost:3000''
       \<notin> set (st_trace (snd (callTool sample_env sample_tool short_args sample_state)))"
    by (auto simp add: sample_state_def sample_tool_def sample_sseUrl)
  with thrown show ?thesis by simp
qed

text \<open>A call that returns: the session is opened, used and closed.\<close>

lemma callTool_sample_returns:
  "callTool sample_env sample_tool sample_args sample_state =
     (Inr (JStr ''done''),
      sample_state\<lparr>st_trace :=
        [Connected ''http://localhost:3000'' ''http://localhost:3000/sse'',
         Invoke ''http://localhost:3000'' (Some ''http://localhost:3000/sse'') ''add''
           (JObj sample_args),
         Closed ''http://localhost:3000'']\<rparr>)"
  by (simp add: callTool_def bind_def client_connect_def new_Client_def client_callTool_def
      client_close_def return_def sample_env_def sample_tool_def sample_args_def
      check_parameter_def js_get_def log_def sample_state_def sseUrl_of_def endsWith_def)

subsection \<open>The hook callback\<close>

text \<open>
  Claim C2 does not hold of the code: \<^verbatim>\<open>hook\<close> creates a client named after the hook
  server and issues \<^verbatim>\<open>callTool\<close> on it without ever connecting it. For every hook, the
  events \<^verbatim>\<open>hook\<close> adds are none (when the internal capability throws) or the single
  invocation of the callback tool on a client without a session, with the static
  arguments and \<^verbatim>\<open>daemonOutput\<close>; no session is opened.
\<close>

theorem hook_opens_no_session:
  "st_trace (snd (hook P E d h st)) =
     st_trace st @
       (case hook_dispatch P d h of
          Inl e \<Rightarrow> []
        | Inr h' \<Rightarrow>
            [Invoke (ht_hookServerUrl (h_hookTool h)) None (ht_toolName (h_hookTool h))
               (JObj (js_set ''daemonOutput''
                        (case h_hookOutput h' of None \<Rightarrow> JUndefined | Some s \<Rightarrow> JStr s)
                        (ht_toolArgs (h_hookTool h))))])"
proof (cases "hook_dispatch P d h")
  case (Inl e)
  then show ?thesis by (simp add: hook_def throw_def)
next
  case (Inr h')
  then have "h_hookTool h' = h_hookTool h"
    by (auto simp add: hook_dispatch_def split: if_splits sum.splits)
  with Inr show ?thesis
    by (simp add: hook_def client_callTool_def new_Client_def log_def hook_arguments_def)
qed

text \<open>The sample hook: the signature is delivered on a client that never connected.\<close>

theorem hook_opens_no_session_witness:
  "st_trace (snd (hook sample_platform sample_env sample_daemon sample_hook sample_state)) =
     [Invoke ''http://localhost:3000'' None ''submit''
        (JObj [(''txId'', JNum 7), (''daemonOutput'', JStr ''sk|aGVsbG8='')])]"
  using hook_opens_no_session [of sample_platform sample_env sample_daemon sample_hook sample_state]
  by (simp add: hook_dispatch_def sign_def sample_platform_def sample_daemon_def
      sample_hook_def sample_state_def)

subsection \<open>Choosing the model from the registry\<close>

lemma char_of_48: "char_of (48::nat) = CHR ''0''"
  by code_simp

lemma show_nat_0: "show_nat 0 = ''0''"
  by (subst show_nat.simps) (simp add: char_of_48)

lemma first_key_nonempty: "xs \<noteq> [] \<Longrightarrow> first_key xs = Some ''0''"
  by (cases xs) (simp_all add: first_key_def Object_keys_def upt_conv_Cons show_nat_0 del: upt_Suc)

lemma choose_llm_registry_only:
  assumes "d_models d \<noteq> []" and "opts_llm opts = None"
    and "\<forall>p\<in>set (d_models d). mp_provider p \<noteq> ''0''"
  shows "choose_llm d opts = Inl (Error ''No LLM model chosen'')"
proof -
  from assms(1) have keys: "length (Object_keys (d_models d)) \<noteq> 0"
    by (simp add: Object_keys_def)
  from assms(1,2) have provider: "choose_provider d opts = Some ''0''"
    by (simp add: choose_provider_def first_key_nonempty)
  from assms(3) have "find_provider d ''0'' = None"
    by (simp add: find_provider_def find_None_iff)
  with assms(2) have model: "choose_model d opts ''0'' = []"
    by (simp add: choose_model_def)
  from keys provider model show ?thesis
    by (simp add: choose_llm_def)
qed

text \<open>
  Claim C5 does not hold of the code: without an \<^verbatim>\<open>llm\<close> override the provider name is
  \<^verbatim>\<open>Object.keys(this.models)[0]\<close>, the index \<^verbatim>\<open>"0"\<close> of the first array element and
  not its provider name. Unless a registered provider is itself called \<^verbatim>\<open>0\<close>, \<^verbatim>\<open>find\<close>
  returns nothing, the model is the empty string, and \<^verbatim>\<open>message\<close> and
  \<^verbatim>\<open>messageWithTools\<close> fail with \<^verbatim>\<open>No LLM model chosen\<close> before anything else happens,
  whatever the registered providers hold.
\<close>

theorem message_registry_provider_not_resolved:
  assumes "d_models d \<noteq> []" and "opts_llm opts = None"
    and "\<forall>p\<in>set (d_models d). mp_provider p \<noteq> ''0''"
  shows "message P E d text opts st
           = (Inl (Error ''Failed at step: Error: No LLM model chosen''), st)
       \<and> messageWithTools P E d text opts st
           = (Inl (Error ''Failed at step: Error: No LLM model chosen''), st)"
  using choose_llm_registry_only [OF assms]
  by (simp add: message_def messageWithTools_def catch_all_def throw_def failed_at_step_def
      Error_def)

text \<open>The daemon of the test suite, with its complete \<^verbatim>\<open>openai\<close> provider and no override.\<close>

theorem message_registry_provider_not_resolved_witness:
  "d_models sample_daemon = [sample_provider]
   \<and> mp_models sample_provider \<noteq> [] \<and> mp_apiKey sample_provider \<noteq> []
   \<and> mp_endpoint sample_provider \<noteq> []
   \<and> message sample_platform sample_env sample_daemon ''Hello world'' None sample_state
       = (Inl (JsError ''Error'' ''Failed at step: Error: No LLM model chosen''), sample_state)"
  using message_registry_provider_not_resolved [of sample_daemon None sample_platform sample_env
      "''Hello world''" sample_state]
  by (simp add: sample_daemon_def sample_provider_def opts_llm_def Error_def)

subsection \<open>Hooks in the pipeline\<close>

lemma hook_free_simps [simp]:
  "hook_free (log e st) = (hook_free st \<and> \<not> hook_call e)"
  "hook_free (st\<lparr>st_ids := n\<rparr>) = hook_free st"
  "hook_free (st\<lparr>st_clock := n\<rparr>) = hook_free st"
  "hook_free (st\<lparr>st_subject := s\<rparr>) = hook_free st"
  by (auto simp add: hook_free_def log_def)

lemma st_subject_log [simp]: "st_subject (log e st) = st_subject st"
  by (simp add: log_def)

lemma silent_return: "silent (return a)"
  by (simp add: silent_def return_def)

lemma silent_throw: "silent (throw e)"
  by (simp add: silent_def throw_def)

lemma silent_bind:
  assumes "silent m" and "\<And>a. silent (f a)"
  shows "silent (bind m f)"
  unfolding silent_def
proof
  fix st
  obtain r st' where run: "m st = (r, st')" by (cases "m st")
  with assms(1) have same: "st_subject st' = st_subject st"
    and free: "hook_free st \<longrightarrow> hook_free st'"
    by (metis silent_def snd_conv)+
  show "st_subject (snd (bind m f st)) = st_subject st
      \<and> (hook_free st \<longrightarrow> hook_free (snd (bind m f st)))"
  proof (cases r)
    case (Inl e)
    with run same free show ?thesis by (simp add: bind_def)
  next
    case (Inr a)
    with run have "bind m f st = f a st'" by (simp add: bind_def)
    with assms(2) [of a] same free show ?thesis by (simp add: silent_def)
  qed
qed

lemma silent_nanoid: "silent (nanoid E)"
  by (simp add: silent_def nanoid_def)

lemma silent_now_ISO: "silent (now_ISO E)"
  by (simp add: silent_def now_ISO_def)

lemma silent_callTool: "silent (callTool E tool args)"
  unfolding silent_def
proof
  fix st
  show "st_subject (snd (callTool E tool args st)) = st_subject st
      \<and> (hook_free st \<longrightarrow> hook_free (snd (callTool E tool args st)))"
  proof (cases "env_connect E (st_trace st) (sseUrl_of (tp_serverUrl tool))")
    case (Some e)
    then show ?thesis by (simp add: callTool_connect_failed)
  next
    case None
    note connected = this
    show ?thesis
    proof (cases "check_args (tp_parameters tool) args")
      case (Some e)
      with connected show ?thesis by (simp add: callTool_invalid)
    next
      case None
      note valid = this
      show ?thesis
      proof (cases "env_callTool E
          (st_trace st @ [Connected (tp_serverUrl tool) (sseUrl_of (tp_serverUrl tool))])
          (Some (sseUrl_of (tp_serverUrl tool))) (tp_toolName tool) (JObj args)")
        case (Inl e)
        with connected valid show ?thesis by (simp add: callTool_remote_throws)
      next
        case (Inr v)
        with connected valid show ?thesis by (simp add: callTool_returns)
      qed
    qed
  qed
qed

lemma silent_all_of:
  assumes "\<And>x. silent (call x)"
  shows "silent (all_of call xs)"
  unfolding silent_def
proof (induction xs)
  case Nil
  show ?case by simp
next
  case (Cons x xs)
  show ?case
  proof
    fix st
    obtain r st1 where first: "call x st = (r, st1)" by (cases "call x st")
    obtain rs st2 where rest: "all_of call xs st1 = (rs, st2)" by (cases "all_of call xs st1")
    from first assms [of x] have "st_subject st1 = st_subject st"
      and "hook_free st \<longrightarrow> hook_free st1"
      by (metis silent_def snd_conv)+
    moreover from rest Cons.IH have "st_subject st2 = st_subject st1"
      and "hook_free st1 \<longrightarrow> hook_free st2"
      by (metis snd_conv)+
    ultimately show "st_subject (snd (all_of call (x # xs) st)) = st_subject st
        \<and> (hook_free st \<longrightarrow> hook_free (snd (all_of call (x # xs) st)))"
      using first rest by (simp split: sum.split)
  qed
qed

lemma silent_call_stage_tools: "silent (call_stage_tools E d opts role v)"
  by (simp add: call_stage_tools_def silent_all_of silent_callTool)

lemma silent_genText: "silent (genText E provider model endpoint apiKey systemPrompt prompt)"
  by (simp add: silent_def genText_def split: sum.split)

lemma silent_genTextWithTools:
  "silent (genTextWithTools E provider model endpoint apiKey systemPrompt prompt tools)"
  by (simp add: silent_def genTextWithTools_def split: sum.split prod.split)

lemma silent_base_lifecycle: "silent (base_lifecycle P E d text opts)"
  unfolding base_lifecycle_def
  by (simp add: silent_throw silent_bind silent_nanoid silent_now_ISO silent_return
      split: option.split sum.split)

lemma base_lifecycle_no_hooks:
  "fst (base_lifecycle P E d text opts st) = Inr v \<Longrightarrow> no_hooks v"
  by (auto simp add: base_lifecycle_def bind_def nanoid_def now_ISO_def throw_def return_def
      no_hooks_def split: option.splits sum.splits)


lemma preserves_silent: "silent m \<Longrightarrow> preserves F m (\<lambda>a. True)"
  by (simp add: preserves_def silent_def hooks_never_set_def published_def)

lemma preserves_return: "Q a \<Longrightarrow> preserves F (return a) Q"
  by (simp add: preserves_def return_def)

lemma preserves_throw: "preserves F (throw e) Q"
  by (simp add: preserves_def throw_def)

lemma preserves_weaken: "preserves F m Q \<Longrightarrow> (\<And>a. Q a \<Longrightarrow> R a) \<Longrightarrow> preserves F m R"
  by (simp add: preserves_def)

lemma preserves_bind:
  assumes "preserves F m Q" and "\<And>a. Q a \<Longrightarrow> preserves F (f a) R"
  shows "preserves F (bind m f) R"
  unfolding preserves_def
proof (intro allI impI)
  fix st
  assume ok: "hooks_never_set F st"
  obtain r st' where run: "m st = (r, st')" by (cases "m st")
  from assms(1) ok run have ok': "hooks_never_set F st'"
    by (metis preserves_def snd_conv)
  show "hooks_never_set F (snd (bind m f st)) \<and> (\<forall>a. fst (bind m f st) = Inr a \<longrightarrow> R a)"
  proof (cases r)
    case (Inl e)
    with run ok' show ?thesis by (simp add: bind_def)
  next
    case (Inr a)
    with assms(1) ok run have "Q a"
      by (metis preserves_def fst_conv)
    from assms(2) [OF this] ok' have
      "hooks_never_set F (snd (f a st')) \<and> (\<forall>b. fst (f a st') = Inr b \<longrightarrow> R b)"
      by (simp add: preserves_def)
    moreover from run Inr have "bind m f st = f a st'" by (simp add: bind_def)
    ultimately show ?thesis by simp
  qed
qed

lemma preserves_lifecycle_next: "no_hooks v \<Longrightarrow> preserves F (lifecycle_next v) no_hooks"
  by (auto simp add: preserves_def lifecycle_next_def hooks_never_set_def published_def
      split: option.splits)

lemma preserves_new_BehaviorSubject: "preserves F new_BehaviorSubject (\<lambda>u. True)"
  by (simp add: preserves_def new_BehaviorSubject_def hooks_never_set_def published_def)

lemma preserves_silent_result:
  "silent m \<Longrightarrow> (\<And>st a. fst (m st) = Inr a \<Longrightarrow> Q a) \<Longrightarrow> preserves F m Q"
  by (simp add: preserves_def silent_def hooks_never_set_def published_def)

lemma preserves_base_lifecycle: "preserves F (base_lifecycle P E d text opts) no_hooks"
  by (rule preserves_silent_result [OF silent_base_lifecycle]) (rule base_lifecycle_no_hooks)

lemma preserves_context_stage:
  "no_hooks v \<Longrightarrow> preserves F (context_stage E d opts v) no_hooks"
  unfolding context_stage_def
  by (auto intro!: preserves_bind [OF preserves_silent [OF silent_call_stage_tools]]
      preserves_lifecycle_next preserves_return simp add: no_hooks_def)

lemma preserves_prompt_stage: "no_hooks v \<Longrightarrow> preserves F (prompt_stage v) no_hooks"
  unfolding prompt_stage_def
  by (rule preserves_lifecycle_next) (simp add: no_hooks_def)

lemma preserves_postProcess_stage:
  "no_hooks v \<Longrightarrow> preserves F (postProcess_stage E d opts v) no_hooks"
  unfolding postProcess_stage_def
  by (auto intro!: preserves_bind [OF preserves_silent [OF silent_call_stage_tools]]
      preserves_lifecycle_next preserves_return simp add: no_hooks_def)

text \<open>The hook loop runs over the hooks of a published value, which has none.\<close>

lemma preserves_hook_loop:
  assumes "no_hooks v"
  shows "preserves F
           (bind (all_of (hook P E d) (lc_hooks v)) (\<lambda>hookResults.
              lifecycle_next (v\<lparr>lc_hooksLog := hookResults\<rparr>)))
           no_hooks"
proof -
  from assms have none: "lc_hooks v = []" by (simp add: no_hooks_def)
  have "all_of (hook P E d) [] = return []"
    by (rule ext) (simp add: return_def)
  then have "bind (all_of (hook P E d) (lc_hooks v)) (\<lambda>hookResults.
              lifecycle_next (v\<lparr>lc_hooksLog := hookResults\<rparr>))
           = lifecycle_next (v\<lparr>lc_hooksLog := []\<rparr>)"
    using none by (simp add: bind_def return_def fun_eq_iff)
  moreover from assms have "no_hooks (v\<lparr>lc_hooksLog := []\<rparr>)"
    by (simp add: no_hooks_def)
  ultimately show ?thesis
    by (simp add: preserves_lifecycle_next)
qed

lemma preserves_actions_stage:
  assumes "no_hooks v"
  shows "preserves F (actions_stage P E d opts v) no_hooks"
proof (cases "stage_actions opts")
  case False
  with assms show ?thesis
    by (simp add: actions_stage_def preserves_return)
next
  case True
  have "preserves F
      (bind (call_stage_tools E d opts ''action'' v) (\<lambda>actionResults.
       bind (lifecycle_next (v\<lparr>lc_actionsLog := actionResults\<rparr>)) (\<lambda>v'.
       bind (all_of (hook P E d) (lc_hooks v')) (\<lambda>hookResults.
         lifecycle_next (v'\<lparr>lc_hooksLog := hookResults\<rparr>)))))
      no_hooks"
  proof (rule preserves_bind [OF preserves_silent [OF silent_call_stage_tools]])
    fix actionResults
    from assms have "no_hooks (v\<lparr>lc_actionsLog := actionResults\<rparr>)"
      by (simp add: no_hooks_def)
    then show "preserves F
        (bind (lifecycle_next (v\<lparr>lc_actionsLog := actionResults\<rparr>)) (\<lambda>v'.
         bind (all_of (hook P E d) (lc_hooks v')) (\<lambda>hookResults.
           lifecycle_next (v'\<lparr>lc_hooksLog := hookResults\<rparr>))))
        no_hooks"
      by (rule preserves_bind [OF preserves_lifecycle_next]) (rule preserves_hook_loop)
  qed
  with True show ?thesis
    by (simp add: actions_stage_def)
qed

lemma preserves_publish_outputs:
  "no_hooks v \<Longrightarrow> preserves F (publish_outputs v outputs) no_hooks"
proof (induction outputs arbitrary: v)
  case Nil
  then show ?case by (simp add: preserves_return)
next
  case (Cons out rest)
  from Cons.prems have "no_hooks (v\<lparr>lc_output := out\<rparr>)"
    by (simp add: no_hooks_def)
  then have "preserves F (lifecycle_next (v\<lparr>lc_output := out\<rparr>)) no_hooks"
    by (rule preserves_lifecycle_next)
  then show ?case
    by (simp del: bind_def) (rule preserves_bind, assumption, rule Cons.IH)
qed

lemma preserves_unawaited: "preserves F m Q \<Longrightarrow> preserves F (unawaited m) (\<lambda>u. True)"
  by (simp add: preserves_def unawaited_def split: prod.split) (metis snd_conv)

lemma preserves_catch_all: "preserves F m Q \<Longrightarrow> preserves F (catch_all m) Q"
  unfolding preserves_def catch_all_def
  by (auto split: prod.splits sum.splits)

lemma preserves_return_lifecycle: "preserves F return_lifecycle (\<lambda>vs. True)"
  by (simp add: preserves_def return_lifecycle_def)


lemma preserves_blocking_stages:
  "no_hooks v0 \<Longrightarrow>
     preserves F (blocking_stages P E d opts provider model apiKey endpoint v0) (\<lambda>vs. True)"
  unfolding blocking_stages_def
  apply (rule preserves_bind [OF preserves_context_stage], assumption)
  apply (rule preserves_bind [OF preserves_prompt_stage], assumption)
  apply (rule preserves_bind [OF preserves_silent [OF silent_genText]])
  apply (rule preserves_bind [OF preserves_lifecycle_next], simp add: no_hooks_def)
  apply (rule preserves_bind [OF preserves_actions_stage], assumption)
  apply (rule preserves_bind [OF preserves_postProcess_stage], assumption)
  apply (rule preserves_return_lifecycle)
  done

lemma preserves_message: "preserves F (message P E d text opts) (\<lambda>vs. True)"
proof (cases "choose_llm d opts")
  case (Inl e)
  then show ?thesis
    by (simp add: message_def preserves_catch_all preserves_throw)
next
  case (Inr chosen)
  obtain provider model apiKey endpoint where "chosen = (provider, model, apiKey, endpoint)"
    by (cases chosen) auto
  with Inr show ?thesis
    unfolding message_def
    apply simp
    apply (rule preserves_catch_all)
    apply (rule preserves_bind [OF preserves_new_BehaviorSubject])
    apply (rule preserves_bind [OF preserves_base_lifecycle])
    apply (rule preserves_bind [OF preserves_lifecycle_next], assumption)
    apply (rule preserves_blocking_stages, assumption)
    done
qed

lemma preserves_completion:
  "no_hooks v \<Longrightarrow>
     preserves F
       (case ending of
          StreamComplete \<Rightarrow>
            unawaited (bind (actions_stage P E d opts v) (\<lambda>v4. postProcess_stage E d opts v4))
        | StreamError e \<Rightarrow> return ()
        | StreamHang \<Rightarrow> return ())
       (\<lambda>u. True)"
  by (cases ending)
    (auto intro!: preserves_unawaited preserves_bind [OF preserves_actions_stage]
      preserves_postProcess_stage preserves_return)

lemma preserves_streaming_stages:
  "no_hooks v0 \<Longrightarrow>
     preserves F (streaming_stages P E d opts provider model apiKey endpoint v0) (\<lambda>vs. True)"
  unfolding streaming_stages_def
  apply (rule preserves_bind [OF preserves_context_stage], assumption)
  apply (rule preserves_bind [OF preserves_prompt_stage], assumption)
  apply (rule preserves_bind [OF preserves_silent [OF silent_genTextWithTools]])
  apply (rule preserves_bind [OF preserves_publish_outputs], assumption)
  apply (rule preserves_bind [OF preserves_completion], assumption)
  apply (rule preserves_return_lifecycle)
  done

lemma preserves_messageWithTools: "preserves F (messageWithTools P E d text opts) (\<lambda>vs. True)"
proof (cases "choose_llm d opts")
  case (Inl e)
  then show ?thesis
    by (simp add: messageWithTools_def preserves_catch_all preserves_throw)
next
  case (Inr chosen)
  obtain provider model apiKey endpoint where "chosen = (provider, model, apiKey, endpoint)"
    by (cases chosen) auto
  with Inr show ?thesis
    unfolding messageWithTools_def
    apply simp
    apply (rule preserves_catch_all)
    apply (rule preserves_bind [OF preserves_new_BehaviorSubject])
    apply (rule preserves_bind [OF preserves_base_lifecycle])
    apply (rule preserves_bind [OF preserves_lifecycle_next], assumption)
    apply (rule preserves_streaming_stages, assumption)
    done
qed

text \<open>
  Claim C6. In \<^verbatim>\<open>message\<close> and in \<^verbatim>\<open>messageWithTools\<close>, for every message, every
  options value, every set of registered tools and every behaviour of the outside world,
  each value published on the lifecycle subject of the call has \<^verbatim>\<open>hooks\<close> and
  \<^verbatim>\<open>hooksLog\<close> equal to the empty list; and the call dispatches no hook: when the trace
  held no hook invocation before the call, it holds none after it.
\<close>

theorem hooks_never_written:
  assumes "st_subject st = None"
  shows "(\<forall>v\<in>set (published (snd (message P E d text opts st))).
            lc_hooks v = [] \<and> lc_hooksLog v = [])
       \<and> (\<forall>v\<in>set (published (snd (messageWithTools P E d text opts st))).
            lc_hooks v = [] \<and> lc_hooksLog v = [])
       \<and> (hook_free st \<longrightarrow>
            hook_free (snd (message P E d text opts st))
            \<and> hook_free (snd (messageWithTools P E d text opts st)))"
proof -
  from assms have start: "hooks_never_set (hook_free st) st"
    by (simp add: hooks_never_set_def published_def)
  from preserves_message [of "hook_free st" P E d "text" opts] start
  have "hooks_never_set (hook_free st) (snd (message P E d text opts st))"
    by (simp add: preserves_def)
  moreover from preserves_messageWithTools [of "hook_free st" P E d "text" opts] start
  have "hooks_never_set (hook_free st) (snd (messageWithTools P E d text opts st))"
    by (simp add: preserves_def)
  ultimately show ?thesis
    by (simp add: hooks_never_set_def no_hooks_def)
qed

lemmas run_defs =
  message_def messageWithTools_def blocking_stages_def streaming_stages_def catch_all_def bind_def return_def throw_def
  choose_llm_def choose_provider_def choose_model_def choose_apiKey_def choose_endpoint_def
  opts_llm_def opts_channelId_def opts_stages_def opts_systemPrompt_def opts_toolArgs_def
  stage_context_def stage_actions_def stage_postProcess_def nullish_def Object_keys_def
  new_BehaviorSubject_def lifecycle_next_def return_lifecycle_def
  base_lifecycle_def nanoid_def now_ISO_def generateApproval_def sign_def approval_envelope_def
  context_stage_def prompt_stage_def actions_stage_def postProcess_stage_def
  call_stage_tools_def stage_args_def callTool_def client_connect_def client_callTool_def
  client_close_def new_Client_def log_def genText_def genTextWithTools_def unawaited_def
  published_def

lemmas sample_defs =
  sample_platform_def sample_env_def acting_daemon_def sample_daemon_def
  sample_action_def sample_opts_def sample_state_def sample_provider_def

text \<open>
  A run with an action tool publishes seven values (nine with the streaming strategy and
  its three chunks), all without hooks and with an empty hooks log.
\<close>

theorem hooks_never_written_witness:
  "st_subject sample_state = None
   \<and> length (published (snd (message sample_platform sample_env acting_daemon ''Hello world''
        (Some sample_opts) sample_state))) = 7
   \<and> map lc_hooks (published (snd (message sample_platform sample_env acting_daemon
        ''Hello world'' (Some sample_opts) sample_state))) = replicate 7 []
   \<and> map lc_hooksLog (published (snd (message sample_platform sample_env acting_daemon
        ''Hello world'' (Some sample_opts) sample_state))) = replicate 7 []
   \<and> length (published (snd (messageWithTools sample_platform sample_env acting_daemon
        ''Hello world'' (Some sample_opts) sample_state))) = 9
   \<and> map lc_hooksLog (published (snd (messageWithTools sample_platform sample_env acting_daemon
        ''Hello world'' (Some sample_opts) sample_state))) = replicate 9 []"
proof -
  let ?vs = "published (snd (message sample_platform sample_env acting_daemon ''Hello world''
        (Some sample_opts) sample_state))"
  let ?ws = "published (snd (messageWithTools sample_platform sample_env acting_daemon
        ''Hello world'' (Some sample_opts) sample_state))"
  have fresh: "st_subject sample_state = None"
    by (simp add: sample_state_def)
  have len: "length ?vs = 7"
    by (simp add: run_defs sample_defs)
  have len': "length ?ws = 9"
    by (simp add: run_defs sample_defs)
  from hooks_never_written [OF fresh, of sample_platform sample_env acting_daemon
      "''Hello world''" "Some sample_opts"]
  have all: "\<forall>v\<in>set ?vs. lc_hooks v = [] \<and> lc_hooksLog v = []"
    and all': "\<forall>v\<in>set ?ws. lc_hooks v = [] \<and> lc_hooksLog v = []"
    by blast+
  from all have "map lc_hooks ?vs = replicate (length ?vs) []"
    and "map lc_hooksLog ?vs = replicate (length ?vs) []"
    by (simp_all only: map_replicate_const [symmetric] map_eq_conv) simp_all
  moreover from all' have "map lc_hooksLog ?ws = replicate (length ?ws) []"
    by (simp only: map_replicate_const [symmetric] map_eq_conv) simp
  ultimately show ?thesis
    using fresh len len' by simp
qed

text \<open>The first value \<^verbatim>\<open>message\<close> publishes on the sample input is \<open>sample_base\<close>.\<close>

lemma message_sample_first_published:
  "hd (published (snd (message sample_platform sample_env sample_daemon ''Hello world''
        (Some sample_opts) sample_state))) = sample_base"
  by (simp add: run_defs sample_defs sample_base_def)

subsection \<open>The approval of the base stage\<close>

lemma append_only_unchanged:
  "(\<And>st. st_subject (snd (m st)) = st_subject st) \<Longrightarrow> append_only m"
  by (simp add: append_only_def published_def)

lemma append_only_silent: "silent m \<Longrightarrow> append_only m"
  by (rule append_only_unchanged) (simp add: silent_def)

lemma append_only_return: "append_only (return a)"
  by (simp add: append_only_silent silent_return)

lemma append_only_bind:
  assumes "append_only m" and "\<And>a. append_only (f a)"
  shows "append_only (bind m f)"
  unfolding append_only_def
proof
  fix st
  obtain r st' where run: "m st = (r, st')" by (cases "m st")
  with assms(1) obtain vs where first: "published st' = published st @ vs"
    by (metis append_only_def snd_conv)
  show "\<exists>ws. published (snd (bind m f st)) = published st @ ws"
  proof (cases r)
    case (Inl e)
    with run first show ?thesis by (simp add: bind_def)
  next
    case (Inr a)
    from assms(2) [of a] obtain ws where "published (snd (f a st')) = published st' @ ws"
      by (metis append_only_def)
    with run Inr first show ?thesis by (simp add: bind_def)
  qed
qed

lemma append_only_lifecycle_next: "append_only (lifecycle_next v)"
  by (simp add: append_only_def lifecycle_next_def published_def)

lemma append_only_hook: "append_only (hook P E d h)"
  by (rule append_only_unchanged)
    (simp add: hook_def throw_def client_callTool_def split: sum.split)

lemma append_only_all_of:
  assumes "\<And>x. append_only (call x)"
  shows "append_only (all_of call xs)"
  unfolding append_only_def
proof (induction xs)
  case Nil
  show ?case by simp
next
  case (Cons x xs)
  show ?case
  proof
    fix st
    obtain r st1 where first: "call x st = (r, st1)" by (cases "call x st")
    obtain rs st2 where rest: "all_of call xs st1 = (rs, st2)" by (cases "all_of call xs st1")
    from first assms [of x] obtain vs where "published st1 = published st @ vs"
      by (metis append_only_def snd_conv)
    moreover from rest Cons.IH obtain ws where "published st2 = published st1 @ ws"
      by (metis snd_conv)
    ultimately show "\<exists>us. published (snd (all_of call (x # xs) st)) = published st @ us"
      using first rest by (simp split: sum.split)
  qed
qed

lemma append_only_context_stage: "append_only (context_stage E d opts v)"
  by (simp add: context_stage_def append_only_bind append_only_silent silent_call_stage_tools
      append_only_lifecycle_next append_only_return)

lemma append_only_prompt_stage: "append_only (prompt_stage v)"
  by (simp add: prompt_stage_def append_only_lifecycle_next)

lemma append_only_postProcess_stage: "append_only (postProcess_stage E d opts v)"
  by (simp add: postProcess_stage_def append_only_bind append_only_silent silent_call_stage_tools
      append_only_lifecycle_next append_only_return)

lemma append_only_actions_stage: "append_only (actions_stage P E d opts v)"
  by (simp add: actions_stage_def append_only_bind append_only_silent silent_call_stage_tools
      append_only_lifecycle_next append_only_return append_only_all_of append_only_hook)

lemma append_only_publish_outputs: "append_only (publish_outputs v outputs)"
  by (induction outputs arbitrary: v)
    (simp_all add: append_only_return append_only_bind append_only_lifecycle_next)

lemma append_only_unawaited: "append_only m \<Longrightarrow> append_only (unawaited m)"
  by (simp add: append_only_def unawaited_def split: prod.split) (metis snd_conv)

lemma append_only_return_lifecycle: "append_only return_lifecycle"
  by (simp add: append_only_def return_lifecycle_def)

lemma append_only_blocking_stages:
  "append_only (blocking_stages P E d opts provider model apiKey endpoint v0)"
  unfolding blocking_stages_def
  by (intro append_only_bind append_only_context_stage append_only_prompt_stage
      append_only_silent [OF silent_genText] append_only_lifecycle_next
      append_only_actions_stage append_only_postProcess_stage append_only_return_lifecycle)

lemma append_only_streaming_stages:
  "append_only (streaming_stages P E d opts provider model apiKey endpoint v0)"
  unfolding streaming_stages_def
  by (intro append_only_bind append_only_context_stage append_only_prompt_stage
      append_only_silent [OF silent_genTextWithTools] append_only_publish_outputs
      append_only_return_lifecycle)
    (auto intro!: append_only_unawaited append_only_bind append_only_actions_stage
      append_only_postProcess_stage append_only_return split: stream_end.split)

text \<open>
  What a call publishes first is the base value: the subject is created empty, the base
  value is the first value published on it, and the stages only append.
\<close>

lemma snd_catch_all: "snd (catch_all m st) = snd (m st)"
  by (cases "m st") (simp add: catch_all_def split: sum.split)

lemma first_published_is_base:
  fixes stages :: "IMessageLifecycle \<Rightarrow> IMessageLifecycle list action"
  assumes stages: "\<And>b. append_only (stages b)"
    and first: "published (snd (catch_all
           (bind new_BehaviorSubject (\<lambda>u.
            bind (base_lifecycle P E d text opts) (\<lambda>base.
            bind (lifecycle_next base) stages))) st)) = v # vs"
  shows "\<exists>st1. base_lifecycle P E d text opts (st\<lparr>st_subject := Some []\<rparr>) = (Inr v, st1)"
proof -
  let ?st0 = "st\<lparr>st_subject := Some []\<rparr>"
  let ?call = "catch_all
           (bind new_BehaviorSubject (\<lambda>u.
            bind (base_lifecycle P E d text opts) (\<lambda>base.
            bind (lifecycle_next base) stages)))"
  obtain r st1 where base: "base_lifecycle P E d text opts ?st0 = (r, st1)"
    by (cases "base_lifecycle P E d text opts ?st0")
  from silent_base_lifecycle [of P E d "text" opts] base have empty: "st_subject st1 = Some []"
    by (metis silent_def snd_conv state.select_convs(2) state.surjective state.update_convs(2))
  show ?thesis
  proof (cases r)
    case (Inl e)
    with base empty have "published (snd (?call st)) = []"
      by (simp add: catch_all_def bind_def new_BehaviorSubject_def published_def)
    with first show ?thesis by simp
  next
    case (Inr b)
    let ?st2 = "st1\<lparr>st_subject := Some [b]\<rparr>"
    from base Inr empty have run: "?call st = catch_all (stages b) ?st2"
      by (simp add: catch_all_def bind_def new_BehaviorSubject_def lifecycle_next_def)
    from stages [of b] obtain ws where
      "published (snd (stages b ?st2)) = published ?st2 @ ws"
      by (metis append_only_def)
    then have "published (snd (catch_all (stages b) ?st2)) = b # ws"
      by (simp add: snd_catch_all published_def)
    with run first have "v = b" by simp
    with base Inr show ?thesis by simp
  qed
qed

text \<open>The inputs of the approval when the base value is built.\<close>

lemma base_lifecycle_approval_inputs:
  assumes "base_lifecycle P E d text opts st = (Inr v, st')"
  shows "lc_message v = text
       \<and> lc_channelId v = opts_channelId opts
       \<and> lc_messageId v = env_nanoid E (st_ids st)
       \<and> lc_createdAt v = env_now E (st_clock st)
       \<and> generateApproval P d text (env_now E (Suc (st_clock st))) (env_nanoid E (Suc (st_ids st)))
           (opts_channelId opts) = Inr (lc_approval v)"
  using assms
  by (auto simp add: base_lifecycle_def bind_def nanoid_def now_ISO_def throw_def return_def
      split: option.splits sum.splits)

text \<open>
  Claim C1 does not hold of the code: the base stage draws the message id and the creation
  time of the lifecycle first, and then draws a second time and a second id as arguments
  of \<^verbatim>\<open>generateApproval\<close>. For every call of \<^verbatim>\<open>message\<close> or \<^verbatim>\<open>messageWithTools\<close>
  that publishes, the first value published (the base value) carries the message and the
  channel id of the call, the first id and the first clock reading as \<^verbatim>\<open>messageId\<close> and
  \<^verbatim>\<open>createdAt\<close>, and as \<^verbatim>\<open>approval\<close> the signature over the message, the channel id,
  the second clock reading and the second id.
\<close>

theorem base_approval_signs_second_draw:
  assumes "st_subject st = None"
    and "published (snd (message P E d text opts st)) = v # vs
         \<or> published (snd (messageWithTools P E d text opts st)) = v # vs"
  shows "lc_message v = text
       \<and> lc_channelId v = opts_channelId opts
       \<and> lc_messageId v = env_nanoid E (st_ids st)
       \<and> lc_createdAt v = env_now E (st_clock st)
       \<and> generateApproval P d text (env_now E (Suc (st_clock st))) (env_nanoid E (Suc (st_ids st)))
           (opts_channelId opts) = Inr (lc_approval v)"
proof (cases "choose_llm d opts")
  case (Inl e)
  with assms(1) have "published (snd (message P E d text opts st)) = []"
    and "published (snd (messageWithTools P E d text opts st)) = []"
    by (simp_all add: message_def messageWithTools_def catch_all_def throw_def published_def)
  with assms(2) show ?thesis by simp
next
  case (Inr chosen)
  obtain provider model apiKey endpoint where "chosen = (provider, model, apiKey, endpoint)"
    by (cases chosen) auto
  with Inr have
    m: "message P E d text opts = catch_all
           (bind new_BehaviorSubject (\<lambda>u.
            bind (base_lifecycle P E d text opts) (\<lambda>base.
            bind (lifecycle_next base)
              (blocking_stages P E d opts provider model apiKey endpoint))))"
    and w: "messageWithTools P E d text opts = catch_all
           (bind new_BehaviorSubject (\<lambda>u.
            bind (base_lifecycle P E d text opts) (\<lambda>base.
            bind (lifecycle_next base)
              (streaming_stages P E d opts provider model apiKey endpoint))))"
    by (simp_all add: message_def messageWithTools_def)
  from assms(2) have "\<exists>st1. base_lifecycle P E d text opts (st\<lparr>st_subject := Some []\<rparr>) = (Inr v, st1)"
  proof
    assume "published (snd (message P E d text opts st)) = v # vs"
    then show ?thesis
      unfolding m by (rule first_published_is_base [OF append_only_blocking_stages])
  next
    assume "published (snd (messageWithTools P E d text opts st)) = v # vs"
    then show ?thesis
      unfolding w by (rule first_published_is_base [OF append_only_streaming_stages])
  qed
  then obtain st1 where "base_lifecycle P E d text opts (st\<lparr>st_subject := Some []\<rparr>) = (Inr v, st1)"
    by blast
  from base_lifecycle_approval_inputs [OF this] show ?thesis by simp
qed

text \<open>
  On the sample input the approval stored in the base value is the one for the second id
  and the second clock reading; \<^verbatim>\<open>generateApproval\<close> over the fields of the value itself
  gives a different signature.
\<close>

theorem base_approval_signs_second_draw_witness:
  "published (snd (message sample_platform sample_env sample_daemon ''Hello world''
      (Some sample_opts) sample_state)) \<noteq> []
   \<and> hd (published (snd (message sample_platform sample_env sample_daemon ''Hello world''
      (Some sample_opts) sample_state))) = sample_base
   \<and> lc_messageId sample_base = ''V1StGXR8_Z5jdHi6B-myT''
   \<and> lc_createdAt sample_base = ''2025-01-15T14:00:00.000Z''
   \<and> generateApproval sample_platform sample_daemon ''Hello world''
       ''2025-01-15T14:00:00.001Z'' ''a3Fq9Zk2LmN0pQrS7tUvW'' None
     = Inr (lc_approval sample_base)
   \<and> generateApproval sample_platform sample_daemon (lc_message sample_base)
       (lc_createdAt sample_base) (lc_messageId sample_base) (lc_channelId sample_base)
     = Inr ''sk|message=Hello world;createdAt=2025-01-15T14:00:00.000Z;messageId=V1StGXR8_Z5jdHi6B-myT;channelId=;''
   \<and> lc_approval sample_base
     = ''sk|message=Hello world;createdAt=2025-01-15T14:00:00.001Z;messageId=a3Fq9Zk2LmN0pQrS7tUvW;channelId=;''"
proof -
  let ?vs = "published (snd (message sample_platform sample_env sample_daemon ''Hello world''
      (Some sample_opts) sample_state))"
  have fresh: "st_subject sample_state = None"
    by (simp add: sample_state_def)
  have len: "length ?vs = 7"
    by (simp add: run_defs sample_defs)
  then have nonempty: "?vs \<noteq> []" by auto
  have first: "hd ?vs = sample_base"
    by (rule message_sample_first_published)
  from nonempty first have split: "?vs = sample_base # tl ?vs"
    by (metis list.collapse)
  from base_approval_signs_second_draw [OF fresh disjI1 [OF split]]
  have "generateApproval sample_platform sample_daemon ''Hello world''
      (env_now sample_env (Suc (st_clock sample_state)))
      (env_nanoid sample_env (Suc (st_ids sample_state))) (opts_channelId (Some sample_opts))
    = Inr (lc_approval sample_base)"
    and "lc_messageId sample_base = env_nanoid sample_env (st_ids sample_state)"
    and "lc_createdAt sample_base = env_now sample_env (st_clock sample_state)"
    by simp_all
  then have drawn: "generateApproval sample_platform sample_daemon ''Hello world''
       ''2025-01-15T14:00:00.001Z'' ''a3Fq9Zk2LmN0pQrS7tUvW'' None
     = Inr (lc_approval sample_base)"
    and "lc_messageId sample_base = ''V1StGXR8_Z5jdHi6B-myT''"
    and "lc_createdAt sample_base = ''2025-01-15T14:00:00.000Z''"
    by (simp_all add: sample_env_def sample_state_def sample_opts_def opts_channelId_def)
  moreover have "generateApproval sample_platform sample_daemon (lc_message sample_base)
       (lc_createdAt sample_base) (lc_messageId sample_base) (lc_channelId sample_base)
     = Inr ''sk|message=Hello world;createdAt=2025-01-15T14:00:00.000Z;messageId=V1StGXR8_Z5jdHi6B-myT;channelId=;''"
    by (simp add: generateApproval_def sign_def approval_envelope_def sample_platform_def
        sample_daemon_def sample_base_def)
  moreover have "lc_approval sample_base
     = ''sk|message=Hello world;createdAt=2025-01-15T14:00:00.001Z;messageId=a3Fq9Zk2LmN0pQrS7tUvW;channelId=;''"
    by (simp add: sample_base_def)
  ultimately show ?thesis
    using nonempty first by simp
qed

end
